theory Spec2Isabelle
  imports Main "HOL-Library.Word"
begin

section \<open>Build configuration and host environment\<close>

text \<open>
  \<^verbatim>\<open>obs-browser-source.cpp\<close> is compiled under several preprocessor switches. Each switch
  that selects code in the functions embedded below is a field of \<open>build\<close>; a definition
  branches on the field where the source has \<^verbatim>\<open>#if\<close> or \<^verbatim>\<open>#ifdef\<close>.
\<close>

record build =
  USE_QT_LOOP :: bool
  LINUX :: bool
  WIN32 :: bool
  ENABLE_LOCAL_FILE_URL_SCHEME :: bool

text \<open>
  What the functions read from outside the instance:
  \<^item> \<open>on_engine_thread\<close>: whether the caller runs on the thread that pumps the engine loop;
    with \<^verbatim>\<open>USE_QT_LOOP\<close> this is what \<^verbatim>\<open>QThread::currentThread() == qApp->thread()\<close> tests;
  \<^item> \<open>queue_accepts\<close>: the result of \<^verbatim>\<open>QueueCEFTask\<close> (an \<^verbatim>\<open>extern\<close> of the file);
  \<^item> \<open>source_showing\<close>: the result of \<^verbatim>\<open>obs_source_showing(source)\<close>.
\<close>

record host =
  on_engine_thread :: bool
  queue_accepts :: bool
  source_showing :: bool

section \<open>The instance\<close>

text \<open>
  A \<^verbatim>\<open>CefRefPtr<CefBrowser>\<close> is \<open>handle option\<close>: \<open>None\<close> is the null reference, \<open>Some h\<close>
  refers to the engine object \<open>h\<close>. The C++ \<^verbatim>\<open>int\<close> fields are 32-bit words.
\<close>

type_synonym handle = nat

record BrowserSource =
  is_local :: bool
  width :: "32 word"
  height :: "32 word"
  fps_custom :: bool
  fps :: "32 word"
  shutdown_on_invisible :: bool
  restart :: bool
  css :: string
  url :: string
  reroute_audio :: bool
  cefBrowser :: "handle option"
  create_browser :: bool
  first_update :: bool
  is_showing :: bool

section \<open>Keycode translation: \<^verbatim>\<open>KeyboardCodeFromXKeysym\<close>\<close>

text \<open>
  Both the argument (\<^verbatim>\<open>unsigned int\<close>) and the result (\<^verbatim>\<open>uint32_t\<close>) are 32-bit words.
  The values of the \<^verbatim>\<open>VKEY_\<close> macros are those of \<^verbatim>\<open>windows-keycode.h\<close>; the values of
  the \<^verbatim>\<open>XK_\<close> and \<^verbatim>\<open>XF86XK_\<close> macros are those of the X11 headers \<^verbatim>\<open>keysymdef.h\<close> and
  \<^verbatim>\<open>XF86keysym.h\<close>, which the file includes.
\<close>

type_synonym keysym = "32 word"
type_synonym vkey = "32 word"

subsection \<open>Virtual-key codes of \<^verbatim>\<open>windows-keycode.h\<close>\<close>

abbreviation (input) VKEY_UNKNOWN :: vkey where "VKEY_UNKNOWN \<equiv> 0x00"
abbreviation (input) VKEY_WLAN :: vkey where "VKEY_WLAN \<equiv> 0x97"
abbreviation (input) VKEY_POWER :: vkey where "VKEY_POWER \<equiv> 0x98"
abbreviation (input) VKEY_BRIGHTNESS_DOWN :: vkey where "VKEY_BRIGHTNESS_DOWN \<equiv> 0xD8"
abbreviation (input) VKEY_BRIGHTNESS_UP :: vkey where "VKEY_BRIGHTNESS_UP \<equiv> 0xD9"
abbreviation (input) VKEY_KBD_BRIGHTNESS_DOWN :: vkey where "VKEY_KBD_BRIGHTNESS_DOWN \<equiv> 0xDA"
abbreviation (input) VKEY_KBD_BRIGHTNESS_UP :: vkey where "VKEY_KBD_BRIGHTNESS_UP \<equiv> 0xE8"
abbreviation (input) VKEY_ALTGR :: vkey where "VKEY_ALTGR \<equiv> 0xE1"
abbreviation (input) VKEY_COMPOSE :: vkey where "VKEY_COMPOSE \<equiv> 0xE6"
abbreviation (input) VKEY_LBUTTON :: vkey where "VKEY_LBUTTON \<equiv> 0x01"
abbreviation (input) VKEY_RBUTTON :: vkey where "VKEY_RBUTTON \<equiv> 0x02"
abbreviation (input) VKEY_MBUTTON :: vkey where "VKEY_MBUTTON \<equiv> 0x04"
abbreviation (input) VKEY_XBUTTON1 :: vkey where "VKEY_XBUTTON1 \<equiv> 0x05"
abbreviation (input) VKEY_XBUTTON2 :: vkey where "VKEY_XBUTTON2 \<equiv> 0x06"
abbreviation (input) VKEY_BACK :: vkey where "VKEY_BACK \<equiv> 0x08"
abbreviation (input) VKEY_TAB :: vkey where "VKEY_TAB \<equiv> 0x09"
abbreviation (input) VKEY_CLEAR :: vkey where "VKEY_CLEAR \<equiv> 0x0C"
abbreviation (input) VKEY_RETURN :: vkey where "VKEY_RETURN \<equiv> 0x0D"
abbreviation (input) VKEY_SHIFT :: vkey where "VKEY_SHIFT \<equiv> 0x10"
abbreviation (input) VKEY_CONTROL :: vkey where "VKEY_CONTROL \<equiv> 0x11"
abbreviation (input) VKEY_MENU :: vkey where "VKEY_MENU \<equiv> 0x12"
abbreviation (input) VKEY_PAUSE :: vkey where "VKEY_PAUSE \<equiv> 0x13"
abbreviation (input) VKEY_CAPITAL :: vkey where "VKEY_CAPITAL \<equiv> 0x14"
abbreviation (input) VKEY_KANA :: vkey where "VKEY_KANA \<equiv> 0x15"
abbreviation (input) VKEY_HANGUL :: vkey where "VKEY_HANGUL \<equiv> 0x15"
abbreviation (input) VKEY_JUNJA :: vkey where "VKEY_JUNJA \<equiv> 0x17"
abbreviation (input) VKEY_FINAL :: vkey where "VKEY_FINAL \<equiv> 0x18"
abbreviation (input) VKEY_HANJA :: vkey where "VKEY_HANJA \<equiv> 0x19"
abbreviation (input) VKEY_KANJI :: vkey where "VKEY_KANJI \<equiv> 0x19"
abbreviation (input) VKEY_ESCAPE :: vkey where "VKEY_ESCAPE \<equiv> 0x1B"
abbreviation (input) VKEY_CONVERT :: vkey where "VKEY_CONVERT \<equiv> 0x1C"
abbreviation (input) VKEY_NONCONVERT :: vkey where "VKEY_NONCONVERT \<equiv> 0x1D"
abbreviation (input) VKEY_ACCEPT :: vkey where "VKEY_ACCEPT \<equiv> 0x1E"
abbreviation (input) VKEY_MODECHANGE :: vkey where "VKEY_MODECHANGE \<equiv> 0x1F"
abbreviation (input) VKEY_SPACE :: vkey where "VKEY_SPACE \<equiv> 0x20"
abbreviation (input) VKEY_PRIOR :: vkey where "VKEY_PRIOR \<equiv> 0x21"
abbreviation (input) VKEY_NEXT :: vkey where "VKEY_NEXT \<equiv> 0x22"
abbreviation (input) VKEY_END :: vkey where "VKEY_END \<equiv> 0x23"
abbreviation (input) VKEY_HOME :: vkey where "VKEY_HOME \<equiv> 0x24"
abbreviation (input) VKEY_LEFT :: vkey where "VKEY_LEFT \<equiv> 0x25"
abbreviation (input) VKEY_UP :: vkey where "VKEY_UP \<equiv> 0x26"
abbreviation (input) VKEY_RIGHT :: vkey where "VKEY_RIGHT \<equiv> 0x27"
abbreviation (input) VKEY_DOWN :: vkey where "VKEY_DOWN \<equiv> 0x28"
abbreviation (input) VKEY_SELECT :: vkey where "VKEY_SELECT \<equiv> 0x29"
abbreviation (input) VKEY_PRINT :: vkey where "VKEY_PRINT \<equiv> 0x2A"
abbreviation (input) VKEY_EXECUTE :: vkey where "VKEY_EXECUTE \<equiv> 0x2B"
abbreviation (input) VKEY_SNAPSHOT :: vkey where "VKEY_SNAPSHOT \<equiv> 0x2C"
abbreviation (input) VKEY_INSERT :: vkey where "VKEY_INSERT \<equiv> 0x2D"
abbreviation (input) VKEY_DELETE :: vkey where "VKEY_DELETE \<equiv> 0x2E"
abbreviation (input) VKEY_HELP :: vkey where "VKEY_HELP \<equiv> 0x2F"
abbreviation (input) VKEY_0 :: vkey where "VKEY_0 \<equiv> 0x30"
abbreviation (input) VKEY_1 :: vkey where "VKEY_1 \<equiv> 0x31"
abbreviation (input) VKEY_2 :: vkey where "VKEY_2 \<equiv> 0x32"
abbreviation (input) VKEY_3 :: vkey where "VKEY_3 \<equiv> 0x33"
abbreviation (input) VKEY_4 :: vkey where "VKEY_4 \<equiv> 0x34"
abbreviation (input) VKEY_5 :: vkey where "VKEY_5 \<equiv> 0x35"
abbreviation (input) VKEY_6 :: vkey where "VKEY_6 \<equiv> 0x36"
abbreviation (input) VKEY_7 :: vkey where "VKEY_7 \<equiv> 0x37"
abbreviation (input) VKEY_8 :: vkey where "VKEY_8 \<equiv> 0x38"
abbreviation (input) VKEY_9 :: vkey where "VKEY_9 \<equiv> 0x39"
abbreviation (input) VKEY_A :: vkey where "VKEY_A \<equiv> 0x41"
abbreviation (input) VKEY_B :: vkey where "VKEY_B \<equiv> 0x42"
abbreviation (input) VKEY_C :: vkey where "VKEY_C \<equiv> 0x43"
abbreviation (input) VKEY_D :: vkey where "VKEY_D \<equiv> 0x44"
abbreviation (input) VKEY_E :: vkey where "VKEY_E \<equiv> 0x45"
abbreviation (input) VKEY_F :: vkey where "VKEY_F \<equiv> 0x46"
abbreviation (input) VKEY_G :: vkey where "VKEY_G \<equiv> 0x47"
abbreviation (input) VKEY_H :: vkey where "VKEY_H \<equiv> 0x48"
abbreviation (input) VKEY_I :: vkey where "VKEY_I \<equiv> 0x49"
abbreviation (input) VKEY_J :: vkey where "VKEY_J \<equiv> 0x4A"
abbreviation (input) VKEY_K :: vkey where "VKEY_K \<equiv> 0x4B"
abbreviation (input) VKEY_L :: vkey where "VKEY_L \<equiv> 0x4C"
abbreviation (input) VKEY_M :: vkey where "VKEY_M \<equiv> 0x4D"
abbreviation (input) VKEY_N :: vkey where "VKEY_N \<equiv> 0x4E"
abbreviation (input) VKEY_O :: vkey where "VKEY_O \<equiv> 0x4F"
abbreviation (input) VKEY_P :: vkey where "VKEY_P \<equiv> 0x50"
abbreviation (input) VKEY_Q :: vkey where "VKEY_Q \<equiv> 0x51"
abbreviation (input) VKEY_R :: vkey where "VKEY_R \<equiv> 0x52"
abbreviation (input) VKEY_S :: vkey where "VKEY_S \<equiv> 0x53"
abbreviation (input) VKEY_T :: vkey where "VKEY_T \<equiv> 0x54"
abbreviation (input) VKEY_U :: vkey where "VKEY_U \<equiv> 0x55"
abbreviation (input) VKEY_V :: vkey where "VKEY_V \<equiv> 0x56"
abbreviation (input) VKEY_W :: vkey where "VKEY_W \<equiv> 0x57"
abbreviation (input) VKEY_X :: vkey where "VKEY_X \<equiv> 0x58"
abbreviation (input) VKEY_Y :: vkey where "VKEY_Y \<equiv> 0x59"
abbreviation (input) VKEY_Z :: vkey where "VKEY_Z \<equiv> 0x5A"
abbreviation (input) VKEY_LWIN :: vkey where "VKEY_LWIN \<equiv> 0x5B"
abbreviation (input) VKEY_RWIN :: vkey where "VKEY_RWIN \<equiv> 0x5C"
abbreviation (input) VKEY_APPS :: vkey where "VKEY_APPS \<equiv> 0x5D"
abbreviation (input) VKEY_SLEEP :: vkey where "VKEY_SLEEP \<equiv> 0x5F"
abbreviation (input) VKEY_NUMPAD0 :: vkey where "VKEY_NUMPAD0 \<equiv> 0x60"
abbreviation (input) VKEY_NUMPAD1 :: vkey where "VKEY_NUMPAD1 \<equiv> 0x61"
abbreviation (input) VKEY_NUMPAD2 :: vkey where "VKEY_NUMPAD2 \<equiv> 0x62"
abbreviation (input) VKEY_NUMPAD3 :: vkey where "VKEY_NUMPAD3 \<equiv> 0x63"
abbreviation (input) VKEY_NUMPAD4 :: vkey where "VKEY_NUMPAD4 \<equiv> 0x64"
abbreviation (input) VKEY_NUMPAD5 :: vkey where "VKEY_NUMPAD5 \<equiv> 0x65"
abbreviation (input) VKEY_NUMPAD6 :: vkey where "VKEY_NUMPAD6 \<equiv> 0x66"
abbreviation (input) VKEY_NUMPAD7 :: vkey where "VKEY_NUMPAD7 \<equiv> 0x67"
abbreviation (input) VKEY_NUMPAD8 :: vkey where "VKEY_NUMPAD8 \<equiv> 0x68"
abbreviation (input) VKEY_NUMPAD9 :: vkey where "VKEY_NUMPAD9 \<equiv> 0x69"
abbreviation (input) VKEY_MULTIPLY :: vkey where "VKEY_MULTIPLY \<equiv> 0x6A"
abbreviation (input) VKEY_ADD :: vkey where "VKEY_ADD \<equiv> 0x6B"
abbreviation (input) VKEY_SEPARATOR :: vkey where "VKEY_SEPARATOR \<equiv> 0x6C"
abbreviation (input) VKEY_SUBTRACT :: vkey where "VKEY_SUBTRACT \<equiv> 0x6D"
abbreviation (input) VKEY_DECIMAL :: vkey where "VKEY_DECIMAL \<equiv> 0x6E"
abbreviation (input) VKEY_DIVIDE :: vkey where "VKEY_DIVIDE \<equiv> 0x6F"
abbreviation (input) VKEY_F1 :: vkey where "VKEY_F1 \<equiv> 0x70"
abbreviation (input) VKEY_F2 :: vkey where "VKEY_F2 \<equiv> 0x71"
abbreviation (input) VKEY_F3 :: vkey where "VKEY_F3 \<equiv> 0x72"
abbreviation (input) VKEY_F4 :: vkey where "VKEY_F4 \<equiv> 0x73"
abbreviation (input) VKEY_F5 :: vkey where "VKEY_F5 \<equiv> 0x74"
abbreviation (input) VKEY_F6 :: vkey where "VKEY_F6 \<equiv> 0x75"
abbreviation (input) VKEY_F7 :: vkey where "VKEY_F7 \<equiv> 0x76"
abbreviation (input) VKEY_F8 :: vkey where "VKEY_F8 \<equiv> 0x77"
abbreviation (input) VKEY_F9 :: vkey where "VKEY_F9 \<equiv> 0x78"
abbreviation (input) VKEY_F10 :: vkey where "VKEY_F10 \<equiv> 0x79"
abbreviation (input) VKEY_F11 :: vkey where "VKEY_F11 \<equiv> 0x7A"
abbreviation (input) VKEY_F12 :: vkey where "VKEY_F12 \<equiv> 0x7B"
abbreviation (input) VKEY_F13 :: vkey where "VKEY_F13 \<equiv> 0x7C"
abbreviation (input) VKEY_F14 :: vkey where "VKEY_F14 \<equiv> 0x7D"
abbreviation (input) VKEY_F15 :: vkey where "VKEY_F15 \<equiv> 0x7E"
abbreviation (input) VKEY_F16 :: vkey where "VKEY_F16 \<equiv> 0x7F"
abbreviation (input) VKEY_F17 :: vkey where "VKEY_F17 \<equiv> 0x80"
abbreviation (input) VKEY_F18 :: vkey where "VKEY_F18 \<equiv> 0x81"
abbreviation (input) VKEY_F19 :: vkey where "VKEY_F19 \<equiv> 0x82"
abbreviation (input) VKEY_F20 :: vkey where "VKEY_F20 \<equiv> 0x83"
abbreviation (input) VKEY_F21 :: vkey where "VKEY_F21 \<equiv> 0x84"
abbreviation (input) VKEY_F22 :: vkey where "VKEY_F22 \<equiv> 0x85"
abbreviation (input) VKEY_F23 :: vkey where "VKEY_F23 \<equiv> 0x86"
abbreviation (input) VKEY_F24 :: vkey where "VKEY_F24 \<equiv> 0x87"
abbreviation (input) VKEY_NUMLOCK :: vkey where "VKEY_NUMLOCK \<equiv> 0x90"
abbreviation (input) VKEY_SCROLL :: vkey where "VKEY_SCROLL \<equiv> 0x91"
abbreviation (input) VKEY_LSHIFT :: vkey where "VKEY_LSHIFT \<equiv> 0xA0"
abbreviation (input) VKEY_RSHIFT :: vkey where "VKEY_RSHIFT \<equiv> 0xA1"
abbreviation (input) VKEY_LCONTROL :: vkey where "VKEY_LCONTROL \<equiv> 0xA2"
abbreviation (input) VKEY_RCONTROL :: vkey where "VKEY_RCONTROL \<equiv> 0xA3"
abbreviation (input) VKEY_LMENU :: vkey where "VKEY_LMENU \<equiv> 0xA4"
abbreviation (input) VKEY_RMENU :: vkey where "VKEY_RMENU \<equiv> 0xA5"
abbreviation (input) VKEY_BROWSER_BACK :: vkey where "VKEY_BROWSER_BACK \<equiv> 0xA6"
abbreviation (input) VKEY_BROWSER_FORWARD :: vkey where "VKEY_BROWSER_FORWARD \<equiv> 0xA7"
abbreviation (input) VKEY_BROWSER_REFRESH :: vkey where "VKEY_BROWSER_REFRESH \<equiv> 0xA8"
abbreviation (input) VKEY_BROWSER_STOP :: vkey where "VKEY_BROWSER_STOP \<equiv> 0xA9"
abbreviation (input) VKEY_BROWSER_SEARCH :: vkey where "VKEY_BROWSER_SEARCH \<equiv> 0xAA"
abbreviation (input) VKEY_BROWSER_FAVORITES :: vkey where "VKEY_BROWSER_FAVORITES \<equiv> 0xAB"
abbreviation (input) VKEY_BROWSER_HOME :: vkey where "VKEY_BROWSER_HOME \<equiv> 0xAC"
abbreviation (input) VKEY_VOLUME_MUTE :: vkey where "VKEY_VOLUME_MUTE \<equiv> 0xAD"
abbreviation (input) VKEY_VOLUME_DOWN :: vkey where "VKEY_VOLUME_DOWN \<equiv> 0xAE"
abbreviation (input) VKEY_VOLUME_UP :: vkey where "VKEY_VOLUME_UP \<equiv> 0xAF"
abbreviation (input) VKEY_MEDIA_NEXT_TRACK :: vkey where "VKEY_MEDIA_NEXT_TRACK \<equiv> 0xB0"
abbreviation (input) VKEY_MEDIA_PREV_TRACK :: vkey where "VKEY_MEDIA_PREV_TRACK \<equiv> 0xB1"
abbreviation (input) VKEY_MEDIA_STOP :: vkey where "VKEY_MEDIA_STOP \<equiv> 0xB2"
abbreviation (input) VKEY_MEDIA_PLAY_PAUSE :: vkey where "VKEY_MEDIA_PLAY_PAUSE \<equiv> 0xB3"
abbreviation (input) VKEY_MEDIA_LAUNCH_MAIL :: vkey where "VKEY_MEDIA_LAUNCH_MAIL \<equiv> 0xB4"
abbreviation (input) VKEY_MEDIA_LAUNCH_MEDIA_SELECT :: vkey where "VKEY_MEDIA_LAUNCH_MEDIA_SELECT \<equiv> 0xB5"
abbreviation (input) VKEY_MEDIA_LAUNCH_APP1 :: vkey where "VKEY_MEDIA_LAUNCH_APP1 \<equiv> 0xB6"
abbreviation (input) VKEY_MEDIA_LAUNCH_APP2 :: vkey where "VKEY_MEDIA_LAUNCH_APP2 \<equiv> 0xB7"
abbreviation (input) VKEY_OEM_1 :: vkey where "VKEY_OEM_1 \<equiv> 0xBA"
abbreviation (input) VKEY_OEM_PLUS :: vkey where "VKEY_OEM_PLUS \<equiv> 0xBB"
abbreviation (input) VKEY_OEM_COMMA :: vkey where "VKEY_OEM_COMMA \<equiv> 0xBC"
abbreviation (input) VKEY_OEM_MINUS :: vkey where "VKEY_OEM_MINUS \<equiv> 0xBD"
abbreviation (input) VKEY_OEM_PERIOD :: vkey where "VKEY_OEM_PERIOD \<equiv> 0xBE"
abbreviation (input) VKEY_OEM_2 :: vkey where "VKEY_OEM_2 \<equiv> 0xBF"
abbreviation (input) VKEY_OEM_3 :: vkey where "VKEY_OEM_3 \<equiv> 0xC0"
abbreviation (input) VKEY_OEM_4 :: vkey where "VKEY_OEM_4 \<equiv> 0xDB"
abbreviation (input) VKEY_OEM_5 :: vkey where "VKEY_OEM_5 \<equiv> 0xDC"
abbreviation (input) VKEY_OEM_6 :: vkey where "VKEY_OEM_6 \<equiv> 0xDD"
abbreviation (input) VKEY_OEM_7 :: vkey where "VKEY_OEM_7 \<equiv> 0xDE"
abbreviation (input) VKEY_OEM_8 :: vkey where "VKEY_OEM_8 \<equiv> 0xDF"
abbreviation (input) VKEY_OEM_102 :: vkey where "VKEY_OEM_102 \<equiv> 0xE2"
abbreviation (input) VKEY_OEM_BACKTAB :: vkey where "VKEY_OEM_BACKTAB \<equiv> 0xF5"
abbreviation (input) VKEY_OEM_FJ_TOUROKU :: vkey where "VKEY_OEM_FJ_TOUROKU \<equiv> 0x94"
abbreviation (input) VKEY_OEM_FJ_MASSHOU :: vkey where "VKEY_OEM_FJ_MASSHOU \<equiv> 0x93"
abbreviation (input) VKEY_PROCESSKEY :: vkey where "VKEY_PROCESSKEY \<equiv> 0xE5"
abbreviation (input) VKEY_PACKET :: vkey where "VKEY_PACKET \<equiv> 0xE7"
abbreviation (input) VKEY_ATTN :: vkey where "VKEY_ATTN \<equiv> 0xF6"
abbreviation (input) VKEY_CRSEL :: vkey where "VKEY_CRSEL \<equiv> 0xF7"
abbreviation (input) VKEY_EXSEL :: vkey where "VKEY_EXSEL \<equiv> 0xF8"
abbreviation (input) VKEY_EREOF :: vkey where "VKEY_EREOF \<equiv> 0xF9"
abbreviation (input) VKEY_PLAY :: vkey where "VKEY_PLAY \<equiv> 0xFA"
abbreviation (input) VKEY_ZOOM :: vkey where "VKEY_ZOOM \<equiv> 0xFB"
abbreviation (input) VKEY_NONAME :: vkey where "VKEY_NONAME \<equiv> 0xFC"
abbreviation (input) VKEY_PA1 :: vkey where "VKEY_PA1 \<equiv> 0xFD"
abbreviation (input) VKEY_OEM_CLEAR :: vkey where "VKEY_OEM_CLEAR \<equiv> 0xFE"

definition defined_vkeys :: "vkey list" where
  "defined_vkeys =
     [VKEY_UNKNOWN, VKEY_WLAN, VKEY_POWER, VKEY_BRIGHTNESS_DOWN,
      VKEY_BRIGHTNESS_UP, VKEY_KBD_BRIGHTNESS_DOWN, VKEY_KBD_BRIGHTNESS_UP, VKEY_ALTGR,
      VKEY_COMPOSE, VKEY_LBUTTON, VKEY_RBUTTON, VKEY_MBUTTON,
      VKEY_XBUTTON1, VKEY_XBUTTON2, VKEY_BACK, VKEY_TAB,
      VKEY_CLEAR, VKEY_RETURN, VKEY_SHIFT, VKEY_CONTROL,
      VKEY_MENU, VKEY_PAUSE, VKEY_CAPITAL, VKEY_KANA,
      VKEY_HANGUL, VKEY_JUNJA, VKEY_FINAL, VKEY_HANJA,
      VKEY_KANJI, VKEY_ESCAPE, VKEY_CONVERT, VKEY_NONCONVERT,
      VKEY_ACCEPT, VKEY_MODECHANGE, VKEY_SPACE, VKEY_PRIOR,
      VKEY_NEXT, VKEY_END, VKEY_HOME, VKEY_LEFT,
      VKEY_UP, VKEY_RIGHT, VKEY_DOWN, VKEY_SELECT,
      VKEY_PRINT, VKEY_EXECUTE, VKEY_SNAPSHOT, VKEY_INSERT,
      VKEY_DELETE, VKEY_HELP, VKEY_0, VKEY_1,
      VKEY_2, VKEY_3, VKEY_4, VKEY_5,
      VKEY_6, VKEY_7, VKEY_8, VKEY_9,
      VKEY_A, VKEY_B, VKEY_C, VKEY_D,
      VKEY_E, VKEY_F, VKEY_G, VKEY_H,
      VKEY_I, VKEY_J, VKEY_K, VKEY_L,
      VKEY_M, VKEY_N, VKEY_O, VKEY_P,
      VKEY_Q, VKEY_R, VKEY_S, VKEY_T,
      VKEY_U, VKEY_V, VKEY_W, VKEY_X,
      VKEY_Y, VKEY_Z, VKEY_LWIN, VKEY_RWIN,
      VKEY_APPS, VKEY_SLEEP, VKEY_NUMPAD0, VKEY_NUMPAD1,
      VKEY_NUMPAD2, VKEY_NUMPAD3, VKEY_NUMPAD4, VKEY_NUMPAD5,
      VKEY_NUMPAD6, VKEY_NUMPAD7, VKEY_NUMPAD8, VKEY_NUMPAD9,
      VKEY_MULTIPLY, VKEY_ADD, VKEY_SEPARATOR, VKEY_SUBTRACT,
      VKEY_DECIMAL, VKEY_DIVIDE, VKEY_F1, VKEY_F2,
      VKEY_F3, VKEY_F4, VKEY_F5, VKEY_F6,
      VKEY_F7, VKEY_F8, VKEY_F9, VKEY_F10,
      VKEY_F11, VKEY_F12, VKEY_F13, VKEY_F14,
      VKEY_F15, VKEY_F16, VKEY_F17, VKEY_F18,
      VKEY_F19, VKEY_F20, VKEY_F21, VKEY_F22,
      VKEY_F23, VKEY_F24, VKEY_NUMLOCK, VKEY_SCROLL,
      VKEY_LSHIFT, VKEY_RSHIFT, VKEY_LCONTROL, VKEY_RCONTROL,
      VKEY_LMENU, VKEY_RMENU, VKEY_BROWSER_BACK, VKEY_BROWSER_FORWARD,
      VKEY_BROWSER_REFRESH, VKEY_BROWSER_STOP, VKEY_BROWSER_SEARCH, VKEY_BROWSER_FAVORITES,
      VKEY_BROWSER_HOME, VKEY_VOLUME_MUTE, VKEY_VOLUME_DOWN, VKEY_VOLUME_UP,
      VKEY_MEDIA_NEXT_TRACK, VKEY_MEDIA_PREV_TRACK, VKEY_MEDIA_STOP, VKEY_MEDIA_PLAY_PAUSE,
      VKEY_MEDIA_LAUNCH_MAIL, VKEY_MEDIA_LAUNCH_MEDIA_SELECT, VKEY_MEDIA_LAUNCH_APP1, VKEY_MEDIA_LAUNCH_APP2,
      VKEY_OEM_1, VKEY_OEM_PLUS, VKEY_OEM_COMMA, VKEY_OEM_MINUS,
      VKEY_OEM_PERIOD, VKEY_OEM_2, VKEY_OEM_3, VKEY_OEM_4,
      VKEY_OEM_5, VKEY_OEM_6, VKEY_OEM_7, VKEY_OEM_8,
      VKEY_OEM_102, VKEY_OEM_BACKTAB, VKEY_OEM_FJ_TOUROKU, VKEY_OEM_FJ_MASSHOU,
      VKEY_PROCESSKEY, VKEY_PACKET, VKEY_ATTN, VKEY_CRSEL,
      VKEY_EXSEL, VKEY_EREOF, VKEY_PLAY, VKEY_ZOOM,
      VKEY_NONAME, VKEY_PA1, VKEY_OEM_CLEAR]"

subsection \<open>Key symbols of the X11 headers\<close>

abbreviation (input) XK_BackSpace :: keysym where "XK_BackSpace \<equiv> 0xFF08"
abbreviation (input) XK_Delete :: keysym where "XK_Delete \<equiv> 0xFFFF"
abbreviation (input) XK_KP_Delete :: keysym where "XK_KP_Delete \<equiv> 0xFF9F"
abbreviation (input) XK_Tab :: keysym where "XK_Tab \<equiv> 0xFF09"
abbreviation (input) XK_KP_Tab :: keysym where "XK_KP_Tab \<equiv> 0xFF89"
abbreviation (input) XK_ISO_Left_Tab :: keysym where "XK_ISO_Left_Tab \<equiv> 0xFE20"
abbreviation (input) XK_3270_BackTab :: keysym where "XK_3270_BackTab \<equiv> 0xFD05"
abbreviation (input) XK_Linefeed :: keysym where "XK_Linefeed \<equiv> 0xFF0A"
abbreviation (input) XK_Return :: keysym where "XK_Return \<equiv> 0xFF0D"
abbreviation (input) XK_KP_Enter :: keysym where "XK_KP_Enter \<equiv> 0xFF8D"
abbreviation (input) XK_ISO_Enter :: keysym where "XK_ISO_Enter \<equiv> 0xFE34"
abbreviation (input) XK_Clear :: keysym where "XK_Clear \<equiv> 0xFF0B"
abbreviation (input) XK_KP_Begin :: keysym where "XK_KP_Begin \<equiv> 0xFF9D"
abbreviation (input) XK_KP_Space :: keysym where "XK_KP_Space \<equiv> 0xFF80"
abbreviation (input) XK_space :: keysym where "XK_space \<equiv> 0x20"
abbreviation (input) XK_Home :: keysym where "XK_Home \<equiv> 0xFF50"
abbreviation (input) XK_KP_Home :: keysym where "XK_KP_Home \<equiv> 0xFF95"
abbreviation (input) XK_End :: keysym where "XK_End \<equiv> 0xFF57"
abbreviation (input) XK_KP_End :: keysym where "XK_KP_End \<equiv> 0xFF9C"
abbreviation (input) XK_Page_Up :: keysym where "XK_Page_Up \<equiv> 0xFF55"
abbreviation (input) XK_KP_Page_Up :: keysym where "XK_KP_Page_Up \<equiv> 0xFF9A"
abbreviation (input) XK_Page_Down :: keysym where "XK_Page_Down \<equiv> 0xFF56"
abbreviation (input) XK_KP_Page_Down :: keysym where "XK_KP_Page_Down \<equiv> 0xFF9B"
abbreviation (input) XK_Left :: keysym where "XK_Left \<equiv> 0xFF51"
abbreviation (input) XK_KP_Left :: keysym where "XK_KP_Left \<equiv> 0xFF96"
abbreviation (input) XK_Right :: keysym where "XK_Right \<equiv> 0xFF53"
abbreviation (input) XK_KP_Right :: keysym where "XK_KP_Right \<equiv> 0xFF98"
abbreviation (input) XK_Down :: keysym where "XK_Down \<equiv> 0xFF54"
abbreviation (input) XK_KP_Down :: keysym where "XK_KP_Down \<equiv> 0xFF99"
abbreviation (input) XK_Up :: keysym where "XK_Up \<equiv> 0xFF52"
abbreviation (input) XK_KP_Up :: keysym where "XK_KP_Up \<equiv> 0xFF97"
abbreviation (input) XK_Escape :: keysym where "XK_Escape \<equiv> 0xFF1B"
abbreviation (input) XK_Kana_Lock :: keysym where "XK_Kana_Lock \<equiv> 0xFF2D"
abbreviation (input) XK_Kana_Shift :: keysym where "XK_Kana_Shift \<equiv> 0xFF2E"
abbreviation (input) XK_Hangul :: keysym where "XK_Hangul \<equiv> 0xFF31"
abbreviation (input) XK_Hangul_Hanja :: keysym where "XK_Hangul_Hanja \<equiv> 0xFF34"
abbreviation (input) XK_Kanji :: keysym where "XK_Kanji \<equiv> 0xFF21"
abbreviation (input) XK_Henkan :: keysym where "XK_Henkan \<equiv> 0xFF23"
abbreviation (input) XK_Muhenkan :: keysym where "XK_Muhenkan \<equiv> 0xFF22"
abbreviation (input) XK_A :: keysym where "XK_A \<equiv> 0x41"
abbreviation (input) XK_a :: keysym where "XK_a \<equiv> 0x61"
abbreviation (input) XK_B :: keysym where "XK_B \<equiv> 0x42"
abbreviation (input) XK_b :: keysym where "XK_b \<equiv> 0x62"
abbreviation (input) XK_C :: keysym where "XK_C \<equiv> 0x43"
abbreviation (input) XK_c :: keysym where "XK_c \<equiv> 0x63"
abbreviation (input) XK_D :: keysym where "XK_D \<equiv> 0x44"
abbreviation (input) XK_d :: keysym where "XK_d \<equiv> 0x64"
abbreviation (input) XK_E :: keysym where "XK_E \<equiv> 0x45"
abbreviation (input) XK_e :: keysym where "XK_e \<equiv> 0x65"
abbreviation (input) XK_F :: keysym where "XK_F \<equiv> 0x46"
abbreviation (input) XK_f :: keysym where "XK_f \<equiv> 0x66"
abbreviation (input) XK_G :: keysym where "XK_G \<equiv> 0x47"
abbreviation (input) XK_g :: keysym where "XK_g \<equiv> 0x67"
abbreviation (input) XK_H :: keysym where "XK_H \<equiv> 0x48"
abbreviation (input) XK_h :: keysym where "XK_h \<equiv> 0x68"
abbreviation (input) XK_I :: keysym where "XK_I \<equiv> 0x49"
abbreviation (input) XK_i :: keysym where "XK_i \<equiv> 0x69"
abbreviation (input) XK_J :: keysym where "XK_J \<equiv> 0x4A"
abbreviation (input) XK_j :: keysym where "XK_j \<equiv> 0x6A"
abbreviation (input) XK_K :: keysym where "XK_K \<equiv> 0x4B"
abbreviation (input) XK_k :: keysym where "XK_k \<equiv> 0x6B"
abbreviation (input) XK_L :: keysym where "XK_L \<equiv> 0x4C"
abbreviation (input) XK_l :: keysym where "XK_l \<equiv> 0x6C"
abbreviation (input) XK_M :: keysym where "XK_M \<equiv> 0x4D"
abbreviation (input) XK_m :: keysym where "XK_m \<equiv> 0x6D"
abbreviation (input) XK_N :: keysym where "XK_N \<equiv> 0x4E"
abbreviation (input) XK_n :: keysym where "XK_n \<equiv> 0x6E"
abbreviation (input) XK_O :: keysym where "XK_O \<equiv> 0x4F"
abbreviation (input) XK_o :: keysym where "XK_o \<equiv> 0x6F"
abbreviation (input) XK_P :: keysym where "XK_P \<equiv> 0x50"
abbreviation (input) XK_p :: keysym where "XK_p \<equiv> 0x70"
abbreviation (input) XK_Q :: keysym where "XK_Q \<equiv> 0x51"
abbreviation (input) XK_q :: keysym where "XK_q \<equiv> 0x71"
abbreviation (input) XK_R :: keysym where "XK_R \<equiv> 0x52"
abbreviation (input) XK_r :: keysym where "XK_r \<equiv> 0x72"
abbreviation (input) XK_S :: keysym where "XK_S \<equiv> 0x53"
abbreviation (input) XK_s :: keysym where "XK_s \<equiv> 0x73"
abbreviation (input) XK_T :: keysym where "XK_T \<equiv> 0x54"
abbreviation (input) XK_t :: keysym where "XK_t \<equiv> 0x74"
abbreviation (input) XK_U :: keysym where "XK_U \<equiv> 0x55"
abbreviation (input) XK_u :: keysym where "XK_u \<equiv> 0x75"
abbreviation (input) XK_V :: keysym where "XK_V \<equiv> 0x56"
abbreviation (input) XK_v :: keysym where "XK_v \<equiv> 0x76"
abbreviation (input) XK_W :: keysym where "XK_W \<equiv> 0x57"
abbreviation (input) XK_w :: keysym where "XK_w \<equiv> 0x77"
abbreviation (input) XK_X :: keysym where "XK_X \<equiv> 0x58"
abbreviation (input) XK_x :: keysym where "XK_x \<equiv> 0x78"
abbreviation (input) XK_Y :: keysym where "XK_Y \<equiv> 0x59"
abbreviation (input) XK_y :: keysym where "XK_y \<equiv> 0x79"
abbreviation (input) XK_Z :: keysym where "XK_Z \<equiv> 0x5A"
abbreviation (input) XK_z :: keysym where "XK_z \<equiv> 0x7A"
abbreviation (input) XK_0 :: keysym where "XK_0 \<equiv> 0x30"
abbreviation (input) XK_1 :: keysym where "XK_1 \<equiv> 0x31"
abbreviation (input) XK_2 :: keysym where "XK_2 \<equiv> 0x32"
abbreviation (input) XK_3 :: keysym where "XK_3 \<equiv> 0x33"
abbreviation (input) XK_4 :: keysym where "XK_4 \<equiv> 0x34"
abbreviation (input) XK_5 :: keysym where "XK_5 \<equiv> 0x35"
abbreviation (input) XK_6 :: keysym where "XK_6 \<equiv> 0x36"
abbreviation (input) XK_7 :: keysym where "XK_7 \<equiv> 0x37"
abbreviation (input) XK_8 :: keysym where "XK_8 \<equiv> 0x38"
abbreviation (input) XK_9 :: keysym where "XK_9 \<equiv> 0x39"
abbreviation (input) XK_parenright :: keysym where "XK_parenright \<equiv> 0x29"
abbreviation (input) XK_exclam :: keysym where "XK_exclam \<equiv> 0x21"
abbreviation (input) XK_at :: keysym where "XK_at \<equiv> 0x40"
abbreviation (input) XK_numbersign :: keysym where "XK_numbersign \<equiv> 0x23"
abbreviation (input) XK_dollar :: keysym where "XK_dollar \<equiv> 0x24"
abbreviation (input) XK_percent :: keysym where "XK_percent \<equiv> 0x25"
abbreviation (input) XK_asciicircum :: keysym where "XK_asciicircum \<equiv> 0x5E"
abbreviation (input) XK_ampersand :: keysym where "XK_ampersand \<equiv> 0x26"
abbreviation (input) XK_asterisk :: keysym where "XK_asterisk \<equiv> 0x2A"
abbreviation (input) XK_parenleft :: keysym where "XK_parenleft \<equiv> 0x28"
abbreviation (input) XK_KP_0 :: keysym where "XK_KP_0 \<equiv> 0xFFB0"
abbreviation (input) XK_KP_1 :: keysym where "XK_KP_1 \<equiv> 0xFFB1"
abbreviation (input) XK_KP_2 :: keysym where "XK_KP_2 \<equiv> 0xFFB2"
abbreviation (input) XK_KP_3 :: keysym where "XK_KP_3 \<equiv> 0xFFB3"
abbreviation (input) XK_KP_4 :: keysym where "XK_KP_4 \<equiv> 0xFFB4"
abbreviation (input) XK_KP_5 :: keysym where "XK_KP_5 \<equiv> 0xFFB5"
abbreviation (input) XK_KP_6 :: keysym where "XK_KP_6 \<equiv> 0xFFB6"
abbreviation (input) XK_KP_7 :: keysym where "XK_KP_7 \<equiv> 0xFFB7"
abbreviation (input) XK_KP_8 :: keysym where "XK_KP_8 \<equiv> 0xFFB8"
abbreviation (input) XK_KP_9 :: keysym where "XK_KP_9 \<equiv> 0xFFB9"
abbreviation (input) XK_multiply :: keysym where "XK_multiply \<equiv> 0xD7"
abbreviation (input) XK_KP_Multiply :: keysym where "XK_KP_Multiply \<equiv> 0xFFAA"
abbreviation (input) XK_KP_Add :: keysym where "XK_KP_Add \<equiv> 0xFFAB"
abbreviation (input) XK_KP_Separator :: keysym where "XK_KP_Separator \<equiv> 0xFFAC"
abbreviation (input) XK_KP_Subtract :: keysym where "XK_KP_Subtract \<equiv> 0xFFAD"
abbreviation (input) XK_KP_Decimal :: keysym where "XK_KP_Decimal \<equiv> 0xFFAE"
abbreviation (input) XK_KP_Divide :: keysym where "XK_KP_Divide \<equiv> 0xFFAF"
abbreviation (input) XK_KP_Equal :: keysym where "XK_KP_Equal \<equiv> 0xFFBD"
abbreviation (input) XK_equal :: keysym where "XK_equal \<equiv> 0x3D"
abbreviation (input) XK_plus :: keysym where "XK_plus \<equiv> 0x2B"
abbreviation (input) XK_comma :: keysym where "XK_comma \<equiv> 0x2C"
abbreviation (input) XK_less :: keysym where "XK_less \<equiv> 0x3C"
abbreviation (input) XK_minus :: keysym where "XK_minus \<equiv> 0x2D"
abbreviation (input) XK_underscore :: keysym where "XK_underscore \<equiv> 0x5F"
abbreviation (input) XK_greater :: keysym where "XK_greater \<equiv> 0x3E"
abbreviation (input) XK_period :: keysym where "XK_period \<equiv> 0x2E"
abbreviation (input) XK_colon :: keysym where "XK_colon \<equiv> 0x3A"
abbreviation (input) XK_semicolon :: keysym where "XK_semicolon \<equiv> 0x3B"
abbreviation (input) XK_question :: keysym where "XK_question \<equiv> 0x3F"
abbreviation (input) XK_slash :: keysym where "XK_slash \<equiv> 0x2F"
abbreviation (input) XK_asciitilde :: keysym where "XK_asciitilde \<equiv> 0x7E"
abbreviation (input) XK_quoteleft :: keysym where "XK_quoteleft \<equiv> 0x60"
abbreviation (input) XK_bracketleft :: keysym where "XK_bracketleft \<equiv> 0x5B"
abbreviation (input) XK_braceleft :: keysym where "XK_braceleft \<equiv> 0x7B"
abbreviation (input) XK_backslash :: keysym where "XK_backslash \<equiv> 0x5C"
abbreviation (input) XK_bar :: keysym where "XK_bar \<equiv> 0x7C"
abbreviation (input) XK_bracketright :: keysym where "XK_bracketright \<equiv> 0x5D"
abbreviation (input) XK_braceright :: keysym where "XK_braceright \<equiv> 0x7D"
abbreviation (input) XK_quoteright :: keysym where "XK_quoteright \<equiv> 0x27"
abbreviation (input) XK_quotedbl :: keysym where "XK_quotedbl \<equiv> 0x22"
abbreviation (input) XK_ISO_Level5_Shift :: keysym where "XK_ISO_Level5_Shift \<equiv> 0xFE11"
abbreviation (input) XK_Shift_L :: keysym where "XK_Shift_L \<equiv> 0xFFE1"
abbreviation (input) XK_Shift_R :: keysym where "XK_Shift_R \<equiv> 0xFFE2"
abbreviation (input) XK_Control_L :: keysym where "XK_Control_L \<equiv> 0xFFE3"
abbreviation (input) XK_Control_R :: keysym where "XK_Control_R \<equiv> 0xFFE4"
abbreviation (input) XK_Meta_L :: keysym where "XK_Meta_L \<equiv> 0xFFE7"
abbreviation (input) XK_Meta_R :: keysym where "XK_Meta_R \<equiv> 0xFFE8"
abbreviation (input) XK_Alt_L :: keysym where "XK_Alt_L \<equiv> 0xFFE9"
abbreviation (input) XK_Alt_R :: keysym where "XK_Alt_R \<equiv> 0xFFEA"
abbreviation (input) XK_ISO_Level3_Shift :: keysym where "XK_ISO_Level3_Shift \<equiv> 0xFE03"
abbreviation (input) XK_Multi_key :: keysym where "XK_Multi_key \<equiv> 0xFF20"
abbreviation (input) XK_Pause :: keysym where "XK_Pause \<equiv> 0xFF13"
abbreviation (input) XK_Caps_Lock :: keysym where "XK_Caps_Lock \<equiv> 0xFFE5"
abbreviation (input) XK_Num_Lock :: keysym where "XK_Num_Lock \<equiv> 0xFF7F"
abbreviation (input) XK_Scroll_Lock :: keysym where "XK_Scroll_Lock \<equiv> 0xFF14"
abbreviation (input) XK_Select :: keysym where "XK_Select \<equiv> 0xFF60"
abbreviation (input) XK_Print :: keysym where "XK_Print \<equiv> 0xFF61"
abbreviation (input) XK_Execute :: keysym where "XK_Execute \<equiv> 0xFF62"
abbreviation (input) XK_Insert :: keysym where "XK_Insert \<equiv> 0xFF63"
abbreviation (input) XK_KP_Insert :: keysym where "XK_KP_Insert \<equiv> 0xFF9E"
abbreviation (input) XK_Help :: keysym where "XK_Help \<equiv> 0xFF6A"
abbreviation (input) XK_Super_L :: keysym where "XK_Super_L \<equiv> 0xFFEB"
abbreviation (input) XK_Super_R :: keysym where "XK_Super_R \<equiv> 0xFFEC"
abbreviation (input) XK_Menu :: keysym where "XK_Menu \<equiv> 0xFF67"
abbreviation (input) XK_F1 :: keysym where "XK_F1 \<equiv> 0xFFBE"
abbreviation (input) XK_F2 :: keysym where "XK_F2 \<equiv> 0xFFBF"
abbreviation (input) XK_F3 :: keysym where "XK_F3 \<equiv> 0xFFC0"
abbreviation (input) XK_F4 :: keysym where "XK_F4 \<equiv> 0xFFC1"
abbreviation (input) XK_F5 :: keysym where "XK_F5 \<equiv> 0xFFC2"
abbreviation (input) XK_F6 :: keysym where "XK_F6 \<equiv> 0xFFC3"
abbreviation (input) XK_F7 :: keysym where "XK_F7 \<equiv> 0xFFC4"
abbreviation (input) XK_F8 :: keysym where "XK_F8 \<equiv> 0xFFC5"
abbreviation (input) XK_F9 :: keysym where "XK_F9 \<equiv> 0xFFC6"
abbreviation (input) XK_F10 :: keysym where "XK_F10 \<equiv> 0xFFC7"
abbreviation (input) XK_F11 :: keysym where "XK_F11 \<equiv> 0xFFC8"
abbreviation (input) XK_F12 :: keysym where "XK_F12 \<equiv> 0xFFC9"
abbreviation (input) XK_F13 :: keysym where "XK_F13 \<equiv> 0xFFCA"
abbreviation (input) XK_F14 :: keysym where "XK_F14 \<equiv> 0xFFCB"
abbreviation (input) XK_F15 :: keysym where "XK_F15 \<equiv> 0xFFCC"
abbreviation (input) XK_F16 :: keysym where "XK_F16 \<equiv> 0xFFCD"
abbreviation (input) XK_F17 :: keysym where "XK_F17 \<equiv> 0xFFCE"
abbreviation (input) XK_F18 :: keysym where "XK_F18 \<equiv> 0xFFCF"
abbreviation (input) XK_F19 :: keysym where "XK_F19 \<equiv> 0xFFD0"
abbreviation (input) XK_F20 :: keysym where "XK_F20 \<equiv> 0xFFD1"
abbreviation (input) XK_F21 :: keysym where "XK_F21 \<equiv> 0xFFD2"
abbreviation (input) XK_F22 :: keysym where "XK_F22 \<equiv> 0xFFD3"
abbreviation (input) XK_F23 :: keysym where "XK_F23 \<equiv> 0xFFD4"
abbreviation (input) XK_F24 :: keysym where "XK_F24 \<equiv> 0xFFD5"
abbreviation (input) XK_KP_F1 :: keysym where "XK_KP_F1 \<equiv> 0xFF91"
abbreviation (input) XK_KP_F2 :: keysym where "XK_KP_F2 \<equiv> 0xFF92"
abbreviation (input) XK_KP_F3 :: keysym where "XK_KP_F3 \<equiv> 0xFF93"
abbreviation (input) XK_KP_F4 :: keysym where "XK_KP_F4 \<equiv> 0xFF94"
abbreviation (input) XK_guillemotleft :: keysym where "XK_guillemotleft \<equiv> 0xAB"
abbreviation (input) XK_guillemotright :: keysym where "XK_guillemotright \<equiv> 0xBB"
abbreviation (input) XK_degree :: keysym where "XK_degree \<equiv> 0xB0"
abbreviation (input) XK_ugrave :: keysym where "XK_ugrave \<equiv> 0xF9"
abbreviation (input) XK_Ugrave :: keysym where "XK_Ugrave \<equiv> 0xD9"
abbreviation (input) XK_brokenbar :: keysym where "XK_brokenbar \<equiv> 0xA6"
abbreviation (input) XF86XK_Tools :: keysym where "XF86XK_Tools \<equiv> 0x1008FF81"
abbreviation (input) XF86XK_Launch5 :: keysym where "XF86XK_Launch5 \<equiv> 0x1008FF45"
abbreviation (input) XF86XK_Launch6 :: keysym where "XF86XK_Launch6 \<equiv> 0x1008FF46"
abbreviation (input) XF86XK_Launch7 :: keysym where "XF86XK_Launch7 \<equiv> 0x1008FF47"
abbreviation (input) XF86XK_Launch8 :: keysym where "XF86XK_Launch8 \<equiv> 0x1008FF48"
abbreviation (input) XF86XK_Launch9 :: keysym where "XF86XK_Launch9 \<equiv> 0x1008FF49"
abbreviation (input) XF86XK_Refresh :: keysym where "XF86XK_Refresh \<equiv> 0x1008FF29"
abbreviation (input) XF86XK_History :: keysym where "XF86XK_History \<equiv> 0x1008FF37"
abbreviation (input) XF86XK_OpenURL :: keysym where "XF86XK_OpenURL \<equiv> 0x1008FF38"
abbreviation (input) XF86XK_AddFavorite :: keysym where "XF86XK_AddFavorite \<equiv> 0x1008FF39"
abbreviation (input) XF86XK_Go :: keysym where "XF86XK_Go \<equiv> 0x1008FF5F"
abbreviation (input) XF86XK_ZoomIn :: keysym where "XF86XK_ZoomIn \<equiv> 0x1008FF8B"
abbreviation (input) XF86XK_ZoomOut :: keysym where "XF86XK_ZoomOut \<equiv> 0x1008FF8C"
abbreviation (input) XF86XK_Back :: keysym where "XF86XK_Back \<equiv> 0x1008FF26"
abbreviation (input) XF86XK_Forward :: keysym where "XF86XK_Forward \<equiv> 0x1008FF27"
abbreviation (input) XF86XK_Reload :: keysym where "XF86XK_Reload \<equiv> 0x1008FF73"
abbreviation (input) XF86XK_Stop :: keysym where "XF86XK_Stop \<equiv> 0x1008FF28"
abbreviation (input) XF86XK_Search :: keysym where "XF86XK_Search \<equiv> 0x1008FF1B"
abbreviation (input) XF86XK_Favorites :: keysym where "XF86XK_Favorites \<equiv> 0x1008FF30"
abbreviation (input) XF86XK_HomePage :: keysym where "XF86XK_HomePage \<equiv> 0x1008FF18"
abbreviation (input) XF86XK_AudioMute :: keysym where "XF86XK_AudioMute \<equiv> 0x1008FF12"
abbreviation (input) XF86XK_AudioLowerVolume :: keysym where "XF86XK_AudioLowerVolume \<equiv> 0x1008FF11"
abbreviation (input) XF86XK_AudioRaiseVolume :: keysym where "XF86XK_AudioRaiseVolume \<equiv> 0x1008FF13"
abbreviation (input) XF86XK_AudioNext :: keysym where "XF86XK_AudioNext \<equiv> 0x1008FF17"
abbreviation (input) XF86XK_AudioPrev :: keysym where "XF86XK_AudioPrev \<equiv> 0x1008FF16"
abbreviation (input) XF86XK_AudioStop :: keysym where "XF86XK_AudioStop \<equiv> 0x1008FF15"
abbreviation (input) XF86XK_AudioPlay :: keysym where "XF86XK_AudioPlay \<equiv> 0x1008FF14"
abbreviation (input) XF86XK_Mail :: keysym where "XF86XK_Mail \<equiv> 0x1008FF19"
abbreviation (input) XF86XK_LaunchA :: keysym where "XF86XK_LaunchA \<equiv> 0x1008FF4A"
abbreviation (input) XF86XK_LaunchB :: keysym where "XF86XK_LaunchB \<equiv> 0x1008FF4B"
abbreviation (input) XF86XK_Calculator :: keysym where "XF86XK_Calculator \<equiv> 0x1008FF1D"
abbreviation (input) XF86XK_WLAN :: keysym where "XF86XK_WLAN \<equiv> 0x1008FF95"
abbreviation (input) XF86XK_PowerOff :: keysym where "XF86XK_PowerOff \<equiv> 0x1008FF2A"
abbreviation (input) XF86XK_MonBrightnessDown :: keysym where "XF86XK_MonBrightnessDown \<equiv> 0x1008FF03"
abbreviation (input) XF86XK_MonBrightnessUp :: keysym where "XF86XK_MonBrightnessUp \<equiv> 0x1008FF02"
abbreviation (input) XF86XK_KbdBrightnessDown :: keysym where "XF86XK_KbdBrightnessDown \<equiv> 0x1008FF06"
abbreviation (input) XF86XK_KbdBrightnessUp :: keysym where "XF86XK_KbdBrightnessUp \<equiv> 0x1008FF05"

definition switch_cases :: "(keysym list \<times> (keysym \<Rightarrow> vkey)) list" where
  "switch_cases =
     [([XK_BackSpace],
       \<lambda>keysym. VKEY_BACK),
      ([XK_Delete, XK_KP_Delete],
       \<lambda>keysym. VKEY_DELETE),
      ([XK_Tab, XK_KP_Tab, XK_ISO_Left_Tab, XK_3270_BackTab],
       \<lambda>keysym. VKEY_TAB),
      ([XK_Linefeed, XK_Return, XK_KP_Enter, XK_ISO_Enter],
       \<lambda>keysym. VKEY_RETURN),
      ([XK_Clear, XK_KP_Begin],
       \<lambda>keysym. VKEY_CLEAR),
      ([XK_KP_Space, XK_space],
       \<lambda>keysym. VKEY_SPACE),
      ([XK_Home, XK_KP_Home],
       \<lambda>keysym. VKEY_HOME),
      ([XK_End, XK_KP_End],
       \<lambda>keysym. VKEY_END),
      ([XK_Page_Up, XK_KP_Page_Up],
       \<lambda>keysym. VKEY_PRIOR),
      ([XK_Page_Down, XK_KP_Page_Down],
       \<lambda>keysym. VKEY_NEXT),
      ([XK_Left, XK_KP_Left],
       \<lambda>keysym. VKEY_LEFT),
      ([XK_Right, XK_KP_Right],
       \<lambda>keysym. VKEY_RIGHT),
      ([XK_Down, XK_KP_Down],
       \<lambda>keysym. VKEY_DOWN),
      ([XK_Up, XK_KP_Up],
       \<lambda>keysym. VKEY_UP),
      ([XK_Escape],
       \<lambda>keysym. VKEY_ESCAPE),
      ([XK_Kana_Lock, XK_Kana_Shift],
       \<lambda>keysym. VKEY_KANA),
      ([XK_Hangul],
       \<lambda>keysym. VKEY_HANGUL),
      ([XK_Hangul_Hanja],
       \<lambda>keysym. VKEY_HANJA),
      ([XK_Kanji],
       \<lambda>keysym. VKEY_KANJI),
      ([XK_Henkan],
       \<lambda>keysym. VKEY_CONVERT),
      ([XK_Muhenkan],
       \<lambda>keysym. VKEY_NONCONVERT),
      ([XK_A, XK_a],
       \<lambda>keysym. VKEY_A),
      ([XK_B, XK_b],
       \<lambda>keysym. VKEY_B),
      ([XK_C, XK_c],
       \<lambda>keysym. VKEY_C),
      ([XK_D, XK_d],
       \<lambda>keysym. VKEY_D),
      ([XK_E, XK_e],
       \<lambda>keysym. VKEY_E),
      ([XK_F, XK_f],
       \<lambda>keysym. VKEY_F),
      ([XK_G, XK_g],
       \<lambda>keysym. VKEY_G),
      ([XK_H, XK_h],
       \<lambda>keysym. VKEY_H),
      ([XK_I, XK_i],
       \<lambda>keysym. VKEY_I),
      ([XK_J, XK_j],
       \<lambda>keysym. VKEY_J),
      ([XK_K, XK_k],
       \<lambda>keysym. VKEY_K),
      ([XK_L, XK_l],
       \<lambda>keysym. VKEY_L),
      ([XK_M, XK_m],
       \<lambda>keysym. VKEY_M),
      ([XK_N, XK_n],
       \<lambda>keysym. VKEY_N),
      ([XK_O, XK_o],
       \<lambda>keysym. VKEY_O),
      ([XK_P, XK_p],
       \<lambda>keysym. VKEY_P),
      ([XK_Q, XK_q],
       \<lambda>keysym. VKEY_Q),
      ([XK_R, XK_r],
       \<lambda>keysym. VKEY_R),
      ([XK_S, XK_s],
       \<lambda>keysym. VKEY_S),
      ([XK_T, XK_t],
       \<lambda>keysym. VKEY_T),
      ([XK_U, XK_u],
       \<lambda>keysym. VKEY_U),
      ([XK_V, XK_v],
       \<lambda>keysym. VKEY_V),
      ([XK_W, XK_w],
       \<lambda>keysym. VKEY_W),
      ([XK_X, XK_x],
       \<lambda>keysym. VKEY_X),
      ([XK_Y, XK_y],
       \<lambda>keysym. VKEY_Y),
      ([XK_Z, XK_z],
       \<lambda>keysym. VKEY_Z),
      ([XK_0, XK_1, XK_2, XK_3, XK_4, XK_5,
        XK_6, XK_7, XK_8, XK_9],
       \<lambda>keysym. VKEY_0 + (keysym - XK_0)),
      ([XK_parenright],
       \<lambda>keysym. VKEY_0),
      ([XK_exclam],
       \<lambda>keysym. VKEY_1),
      ([XK_at],
       \<lambda>keysym. VKEY_2),
      ([XK_numbersign],
       \<lambda>keysym. VKEY_3),
      ([XK_dollar],
       \<lambda>keysym. VKEY_4),
      ([XK_percent],
       \<lambda>keysym. VKEY_5),
      ([XK_asciicircum],
       \<lambda>keysym. VKEY_6),
      ([XK_ampersand],
       \<lambda>keysym. VKEY_7),
      ([XK_asterisk],
       \<lambda>keysym. VKEY_8),
      ([XK_parenleft],
       \<lambda>keysym. VKEY_9),
      ([XK_KP_0, XK_KP_1, XK_KP_2, XK_KP_3, XK_KP_4, XK_KP_5,
        XK_KP_6, XK_KP_7, XK_KP_8, XK_KP_9],
       \<lambda>keysym. VKEY_NUMPAD0 + (keysym - XK_KP_0)),
      ([XK_multiply, XK_KP_Multiply],
       \<lambda>keysym. VKEY_MULTIPLY),
      ([XK_KP_Add],
       \<lambda>keysym. VKEY_ADD),
      ([XK_KP_Separator],
       \<lambda>keysym. VKEY_SEPARATOR),
      ([XK_KP_Subtract],
       \<lambda>keysym. VKEY_SUBTRACT),
      ([XK_KP_Decimal],
       \<lambda>keysym. VKEY_DECIMAL),
      ([XK_KP_Divide],
       \<lambda>keysym. VKEY_DIVIDE),
      ([XK_KP_Equal, XK_equal, XK_plus],
       \<lambda>keysym. VKEY_OEM_PLUS),
      ([XK_comma, XK_less],
       \<lambda>keysym. VKEY_OEM_COMMA),
      ([XK_minus, XK_underscore],
       \<lambda>keysym. VKEY_OEM_MINUS),
      ([XK_greater, XK_period],
       \<lambda>keysym. VKEY_OEM_PERIOD),
      ([XK_colon, XK_semicolon],
       \<lambda>keysym. VKEY_OEM_1),
      ([XK_question, XK_slash],
       \<lambda>keysym. VKEY_OEM_2),
      ([XK_asciitilde, XK_quoteleft],
       \<lambda>keysym. VKEY_OEM_3),
      ([XK_bracketleft, XK_braceleft],
       \<lambda>keysym. VKEY_OEM_4),
      ([XK_backslash, XK_bar],
       \<lambda>keysym. VKEY_OEM_5),
      ([XK_bracketright, XK_braceright],
       \<lambda>keysym. VKEY_OEM_6),
      ([XK_quoteright, XK_quotedbl],
       \<lambda>keysym. VKEY_OEM_7),
      ([XK_ISO_Level5_Shift],
       \<lambda>keysym. VKEY_OEM_8),
      ([XK_Shift_L, XK_Shift_R],
       \<lambda>keysym. VKEY_SHIFT),
      ([XK_Control_L, XK_Control_R],
       \<lambda>keysym. VKEY_CONTROL),
      ([XK_Meta_L, XK_Meta_R, XK_Alt_L, XK_Alt_R],
       \<lambda>keysym. VKEY_MENU),
      ([XK_ISO_Level3_Shift],
       \<lambda>keysym. VKEY_ALTGR),
      ([XK_Multi_key],
       \<lambda>keysym. VKEY_COMPOSE),
      ([XK_Pause],
       \<lambda>keysym. VKEY_PAUSE),
      ([XK_Caps_Lock],
       \<lambda>keysym. VKEY_CAPITAL),
      ([XK_Num_Lock],
       \<lambda>keysym. VKEY_NUMLOCK),
      ([XK_Scroll_Lock],
       \<lambda>keysym. VKEY_SCROLL),
      ([XK_Select],
       \<lambda>keysym. VKEY_SELECT),
      ([XK_Print],
       \<lambda>keysym. VKEY_PRINT),
      ([XK_Execute],
       \<lambda>keysym. VKEY_EXECUTE),
      ([XK_Insert, XK_KP_Insert],
       \<lambda>keysym. VKEY_INSERT),
      ([XK_Help],
       \<lambda>keysym. VKEY_HELP),
      ([XK_Super_L],
       \<lambda>keysym. VKEY_LWIN),
      ([XK_Super_R],
       \<lambda>keysym. VKEY_RWIN),
      ([XK_Menu],
       \<lambda>keysym. VKEY_APPS),
      ([XK_F1, XK_F2, XK_F3, XK_F4, XK_F5, XK_F6,
        XK_F7, XK_F8, XK_F9, XK_F10, XK_F11, XK_F12,
        XK_F13, XK_F14, XK_F15, XK_F16, XK_F17, XK_F18,
        XK_F19, XK_F20, XK_F21, XK_F22, XK_F23, XK_F24],
       \<lambda>keysym. VKEY_F1 + (keysym - XK_F1)),
      ([XK_KP_F1, XK_KP_F2, XK_KP_F3, XK_KP_F4],
       \<lambda>keysym. VKEY_F1 + (keysym - XK_KP_F1)),
      ([XK_guillemotleft, XK_guillemotright, XK_degree, XK_ugrave, XK_Ugrave, XK_brokenbar],
       \<lambda>keysym. VKEY_OEM_102),
      ([XF86XK_Tools],
       \<lambda>keysym. VKEY_F13),
      ([XF86XK_Launch5],
       \<lambda>keysym. VKEY_F14),
      ([XF86XK_Launch6],
       \<lambda>keysym. VKEY_F15),
      ([XF86XK_Launch7],
       \<lambda>keysym. VKEY_F16),
      ([XF86XK_Launch8],
       \<lambda>keysym. VKEY_F17),
      ([XF86XK_Launch9],
       \<lambda>keysym. VKEY_F18),
      ([XF86XK_Refresh, XF86XK_History, XF86XK_OpenURL, XF86XK_AddFavorite, XF86XK_Go, XF86XK_ZoomIn,
        XF86XK_ZoomOut],
       \<lambda>keysym. VKEY_UNKNOWN),
      ([XF86XK_Back],
       \<lambda>keysym. VKEY_BROWSER_BACK),
      ([XF86XK_Forward],
       \<lambda>keysym. VKEY_BROWSER_FORWARD),
      ([XF86XK_Reload],
       \<lambda>keysym. VKEY_BROWSER_REFRESH),
      ([XF86XK_Stop],
       \<lambda>keysym. VKEY_BROWSER_STOP),
      ([XF86XK_Search],
       \<lambda>keysym. VKEY_BROWSER_SEARCH),
      ([XF86XK_Favorites],
       \<lambda>keysym. VKEY_BROWSER_FAVORITES),
      ([XF86XK_HomePage],
       \<lambda>keysym. VKEY_BROWSER_HOME),
      ([XF86XK_AudioMute],
       \<lambda>keysym. VKEY_VOLUME_MUTE),
      ([XF86XK_AudioLowerVolume],
       \<lambda>keysym. VKEY_VOLUME_DOWN),
      ([XF86XK_AudioRaiseVolume],
       \<lambda>keysym. VKEY_VOLUME_UP),
      ([XF86XK_AudioNext],
       \<lambda>keysym. VKEY_MEDIA_NEXT_TRACK),
      ([XF86XK_AudioPrev],
       \<lambda>keysym. VKEY_MEDIA_PREV_TRACK),
      ([XF86XK_AudioStop],
       \<lambda>keysym. VKEY_MEDIA_STOP),
      ([XF86XK_AudioPlay],
       \<lambda>keysym. VKEY_MEDIA_PLAY_PAUSE),
      ([XF86XK_Mail],
       \<lambda>keysym. VKEY_MEDIA_LAUNCH_MAIL),
      ([XF86XK_LaunchA],
       \<lambda>keysym. VKEY_MEDIA_LAUNCH_APP1),
      ([XF86XK_LaunchB, XF86XK_Calculator],
       \<lambda>keysym. VKEY_MEDIA_LAUNCH_APP2),
      ([XF86XK_WLAN],
       \<lambda>keysym. VKEY_WLAN),
      ([XF86XK_PowerOff],
       \<lambda>keysym. VKEY_POWER),
      ([XF86XK_MonBrightnessDown],
       \<lambda>keysym. VKEY_BRIGHTNESS_DOWN),
      ([XF86XK_MonBrightnessUp],
       \<lambda>keysym. VKEY_BRIGHTNESS_UP),
      ([XF86XK_KbdBrightnessDown],
       \<lambda>keysym. VKEY_KBD_BRIGHTNESS_DOWN),
      ([XF86XK_KbdBrightnessUp],
       \<lambda>keysym. VKEY_KBD_BRIGHTNESS_UP)]"

subsection \<open>The switch\<close>

text \<open>
  The body of \<^verbatim>\<open>KeyboardCodeFromXKeysym\<close> is one \<^verbatim>\<open>switch (keysym)\<close> followed by
  \<^verbatim>\<open>return VKEY_UNKNOWN\<close>. \<open>switch_cases\<close> above lists its groups in source order: the
  \<^verbatim>\<open>case\<close> labels of a group and the expression it returns. \<open>switch_on\<close> selects the group
  that carries the label; no label occurs twice (\<open>case_labels_distinct\<close> below), so the order
  of the groups does not matter.
\<close>

fun switch_on :: "('k list \<times> ('k \<Rightarrow> 'v)) list \<Rightarrow> 'k \<Rightarrow> 'v option" where
  "switch_on [] k = None"
| "switch_on ((labels, body) # cs) k =
     (if k \<in> set labels then Some (body k) else switch_on cs k)"

definition KeyboardCodeFromXKeysym :: "keysym \<Rightarrow> vkey" where
  "KeyboardCodeFromXKeysym keysym =
     (case switch_on switch_cases keysym of
        Some code \<Rightarrow> code
      | None \<Rightarrow> VKEY_UNKNOWN)"

definition case_labels :: "keysym list" where
  "case_labels = concat (map fst switch_cases)"

definition switch_results :: "vkey list" where
  "switch_results = concat (map (\<lambda>(labels, body). map body labels) switch_cases)"

section \<open>Task dispatch: \<^verbatim>\<open>BrowserSource::ExecuteOnBrowser\<close>\<close>

text \<open>
  A call is described by the list of things it does, in order. \<open>'f\<close> is the type of the
  closure handed in (\<^verbatim>\<open>BrowserFunc\<close>); the dispatcher never looks inside it.

  \<^item> \<open>Invoke f h\<close>: \<^verbatim>\<open>func(cefBrowser)\<close> is run by the caller itself;
  \<^item> \<open>QueueCEFTask t ok\<close>: \<^verbatim>\<open>QueueCEFTask\<close> is called with task \<open>t\<close> and returns \<open>ok\<close>;
  \<^item> \<open>QueueBrowserTask h f\<close>: \<^verbatim>\<open>QueueBrowserTask(cefBrowser, func)\<close>;
  \<^item> \<open>EventWait\<close>: the caller blocks in \<^verbatim>\<open>os_event_wait\<close>;
  \<^item> \<open>SetAudioActive\<close>, \<open>DestroyTextures\<close>: calls made by \<^verbatim>\<open>Update\<close>.

  The synchronous task captures by reference (\<^verbatim>\<open>[&]\<close>) and tests \<^verbatim>\<open>cefBrowser\<close> when it runs;
  the asynchronous task captures the handle by value (\<^verbatim>\<open>[=]\<close>) when it is submitted.
  \<open>ClearAudioTask\<close> is the task of \<^verbatim>\<open>ClearAudioStreams\<close>.
\<close>

datatype 'f task =
    SyncTask 'f
  | AsyncTask 'f handle
  | ClearAudioTask

datatype 'f effect =
    Invoke 'f handle
  | QueueCEFTask "'f task" bool
  | QueueBrowserTask handle 'f
  | EventWait
  | SetAudioActive bool
  | DestroyTextures

definition ExecuteOnBrowser ::
  "build \<Rightarrow> host \<Rightarrow> BrowserSource \<Rightarrow> 'f \<Rightarrow> bool \<Rightarrow> 'f effect list" where
  "ExecuteOnBrowser b env s func async =
     (if \<not> async then
        (if USE_QT_LOOP b \<and> on_engine_thread env then
           (case cefBrowser s of
              Some h \<Rightarrow> [Invoke func h]
            | None \<Rightarrow> [])
         else if queue_accepts env then
           [QueueCEFTask (SyncTask func) True, EventWait]
         else
           [QueueCEFTask (SyncTask func) False])
      else
        (case cefBrowser s of
           None \<Rightarrow> []
         | Some browser \<Rightarrow>
             if USE_QT_LOOP b then [QueueBrowserTask browser func]
             else [QueueCEFTask (AsyncTask func browser) (queue_accepts env)]))"

text \<open>Predicates on what a call did.\<close>

fun is_enqueue :: "'f effect \<Rightarrow> bool" where
  "is_enqueue (QueueCEFTask t ok) = True"
| "is_enqueue (QueueBrowserTask h f) = True"
| "is_enqueue e = False"

fun is_invoke :: "'f effect \<Rightarrow> bool" where
  "is_invoke (Invoke f h) = True"
| "is_invoke e = False"

fun is_wait :: "'f effect \<Rightarrow> bool" where
  "is_wait EventWait = True"
| "is_wait e = False"

section \<open>The closures and what they send to the engine\<close>

text \<open>
  \<open>CefKeyEvent\<close> has the fields the file assigns (\<open>ke_type\<close> is \<^verbatim>\<open>type\<close>, \<open>ke_modifiers\<close> is
  \<^verbatim>\<open>modifiers\<close>; in \<open>obs_key_event\<close>, \<open>text'\<close> is \<^verbatim>\<open>text\<close>); a default-constructed
  event is zero-filled. \<^verbatim>\<open>to_wide\<close> (of \<^verbatim>\<open>wide-string.hpp\<close>) is a parameter where it is used.
  A wide character (\<^verbatim>\<open>wchar_t\<close>) is a 32-bit word, as it is on Linux. The field \<^verbatim>\<open>character\<close> is
  the engine's \<^verbatim>\<open>char16\<close>, 16 bits wide: \<^verbatim>\<open>e.character = wide[0]\<close> keeps the low 16 bits, and
  where the field is read as \<^verbatim>\<open>unsigned int\<close> or \<^verbatim>\<open>int\<close> it is zero-extended.
\<close>

datatype cef_key_event_type =
    KEYEVENT_RAWKEYDOWN
  | KEYEVENT_KEYDOWN
  | KEYEVENT_KEYUP
  | KEYEVENT_CHAR

type_synonym wchar = "32 word"
type_synonym char16 = "16 word"

record CefKeyEvent =
  ke_type :: cef_key_event_type
  ke_modifiers :: "32 word"
  windows_key_code :: "32 word"
  native_key_code :: "32 word"
  character :: char16

definition CefKeyEvent_default :: CefKeyEvent where
  "CefKeyEvent_default =
     \<lparr>ke_type = KEYEVENT_RAWKEYDOWN, ke_modifiers = 0, windows_key_code = 0,
      native_key_code = 0, character = 0\<rparr>"


text \<open>
  Calls on the engine object: \<open>ClearClientBackref\<close> is \<^verbatim>\<open>bc->bs = nullptr\<close> on the browser's
  client (done if there is a client), the others are the \<^verbatim>\<open>CefBrowserHost\<close> methods of the
  same names.
\<close>

datatype engine_call =
    ClearClientBackref handle
  | WasHidden handle bool
  | CloseBrowser handle bool
  | SendKeyEvent handle CefKeyEvent

text \<open>
  The lambdas of \<^verbatim>\<open>DestroyBrowser\<close> and \<^verbatim>\<open>SendKeyClick\<close>, each with the variables it captures:
  \<open>KeyClickFn text native_vkey native_scancode native_modifiers key_up\<close>. In
  \<open>run_BrowserFunc\<close>, which is the body of the lambda, a captured variable \<^verbatim>\<open>x\<close> is \<open>c_x\<close>
  and the parameter, which the source names \<^verbatim>\<open>cefBrowser\<close>, is \<open>browser\<close>.
\<close>

datatype BrowserFunc =
    DestroyFn
  | KeyClickFn string "32 word" "32 word" "32 word" bool

fun run_BrowserFunc ::
  "build \<Rightarrow> (string \<Rightarrow> wchar list) \<Rightarrow> BrowserFunc \<Rightarrow> handle \<Rightarrow> engine_call list" where
  "run_BrowserFunc b to_wide DestroyFn browser =
     [ClearClientBackref browser, WasHidden browser True, CloseBrowser browser True]"
| "run_BrowserFunc b to_wide
     (KeyClickFn c_text c_vkey c_scancode c_modifiers c_key_up) browser =
     (let e0 = CefKeyEvent_default
            \<lparr>windows_key_code := c_vkey,
             native_key_code := c_scancode,
             ke_type := (if c_key_up then KEYEVENT_KEYUP else KEYEVENT_RAWKEYDOWN)\<rparr>;
          e1 = (if c_text \<noteq> [] then
                  (case to_wide c_text of
                     [] \<Rightarrow> e0
                   | w # ws \<Rightarrow> e0\<lparr>character := ucast w\<rparr>)
                else e0);
          e = e1\<lparr>ke_modifiers := c_modifiers\<rparr>
      in SendKeyEvent browser e #
         (if c_text \<noteq> [] \<and> \<not> c_key_up then
            [SendKeyEvent browser
               (e\<lparr>ke_type := KEYEVENT_CHAR,
                  windows_key_code :=
                    (if LINUX b then KeyboardCodeFromXKeysym (ucast (character e))
                     else ucast (character e)),
                  native_key_code := c_scancode\<rparr>)]
          else []))"

definition DestroyBrowser ::
  "build \<Rightarrow> host \<Rightarrow> BrowserSource \<Rightarrow> bool \<Rightarrow> BrowserFunc effect list \<times> BrowserSource" where
  "DestroyBrowser b env s async =
     (ExecuteOnBrowser b env s DestroyFn async, s\<lparr>cefBrowser := None\<rparr>)"


text \<open>
  What reaches the engine from the effects of one call. A task the queue accepted is run by
  the engine thread; a by-reference task then tests the instance's handle, \<open>cur\<close>, which for
  a synchronous call is the handle the blocked caller left in place. A rejected task is
  never run.
\<close>

fun task_calls ::
  "('f \<Rightarrow> handle \<Rightarrow> engine_call list) \<Rightarrow> handle option \<Rightarrow> 'f task \<Rightarrow> engine_call list" where
  "task_calls run cur (SyncTask f) = (case cur of Some h \<Rightarrow> run f h | None \<Rightarrow> [])"
| "task_calls run cur (AsyncTask f h) = run f h"
| "task_calls run cur ClearAudioTask = []"

fun effect_calls ::
  "('f \<Rightarrow> handle \<Rightarrow> engine_call list) \<Rightarrow> handle option \<Rightarrow> 'f effect \<Rightarrow> engine_call list" where
  "effect_calls run cur (Invoke f h) = run f h"
| "effect_calls run cur (QueueCEFTask t ok) = (if ok then task_calls run cur t else [])"
| "effect_calls run cur (QueueBrowserTask h f) = run f h"
| "effect_calls run cur e = []"

definition engine_calls ::
  "('f \<Rightarrow> handle \<Rightarrow> engine_call list) \<Rightarrow> handle option \<Rightarrow> 'f effect list \<Rightarrow> engine_call list" where
  "engine_calls run cur fx = concat (map (effect_calls run cur) fx)"

section \<open>Strings\<close>

text \<open>
  A \<^verbatim>\<open>std::string\<close> is a \<open>string\<close>. \<^verbatim>\<open>find\<close> returns the index of the first occurrence, or
  \<^verbatim>\<open>npos\<close>, which is \<open>None\<close>. \<^verbatim>\<open>replace(pos, len, str)\<close> throws \<^verbatim>\<open>std::out_of_range\<close> when
  \<^verbatim>\<open>pos\<close> is greater than the size of the string, which \<^verbatim>\<open>npos\<close> always is.
\<close>

datatype error = OutOfRange

fun find_str :: "string \<Rightarrow> string \<Rightarrow> nat option" where
  "find_str [] pat = (if pat = [] then Some 0 else None)"
| "find_str (c # cs) pat =
     (if take (length pat) (c # cs) = pat then Some 0
      else map_option Suc (find_str cs pat))"

definition replace_str :: "string \<Rightarrow> nat option \<Rightarrow> nat \<Rightarrow> string \<Rightarrow> error + string" where
  "replace_str s pos len str =
     (case pos of
        None \<Rightarrow> Inl OutOfRange
      | Some p \<Rightarrow>
          if p > length s then Inl OutOfRange
          else Inr (take p s @ str @ drop (p + len) s))"

lemma find_str_bound: "find_str s pat = Some p \<Longrightarrow> p + length pat \<le> length s"
proof (induction s arbitrary: p)
  case Nil
  then show ?case
    by (simp split: if_splits)
next
  case (Cons c cs)
  show ?case
  proof (cases "take (length pat) (c # cs) = pat")
    case True
    then have "length (take (length pat) (c # cs)) = length pat"
      by simp
    then have "length pat \<le> length (c # cs)"
      unfolding length_take by linarith
    with True Cons.prems show ?thesis
      by simp
  next
    case False
    with Cons.prems obtain q where "find_str cs pat = Some q" "p = Suc q"
      by auto
    with Cons.IH show ?thesis
      by simp
  qed
qed

text \<open>
  The two loops of \<^verbatim>\<open>Update\<close>,
  \<^verbatim>\<open>while (n_url.find("%5C") != npos) n_url.replace(n_url.find("%5C"), 3, "/")\<close>
  and the same for \<^verbatim>\<open>"%2F"\<close>. Each round shortens the string by two characters.
\<close>

function replace_5C :: "string \<Rightarrow> string" where
  "replace_5C n_url =
     (case find_str n_url ''%5C'' of
        None \<Rightarrow> n_url
      | Some p \<Rightarrow> replace_5C (take p n_url @ ''/'' @ drop (p + 3) n_url))"
  by pat_completeness auto
termination
proof (relation "measure length")
  show "wf (measure length)"
    by simp
next
  fix n_url :: string and p
  assume "find_str n_url ''%5C'' = Some p"
  then have "p + 3 \<le> length n_url"
    using find_str_bound [of n_url "''%5C''" p] by simp
  then show "(take p n_url @ ''/'' @ drop (p + 3) n_url, n_url) \<in> measure length"
    by simp
qed

function replace_2F :: "string \<Rightarrow> string" where
  "replace_2F n_url =
     (case find_str n_url ''%2F'' of
        None \<Rightarrow> n_url
      | Some p \<Rightarrow> replace_2F (take p n_url @ ''/'' @ drop (p + 3) n_url))"
  by pat_completeness auto
termination
proof (relation "measure length")
  show "wf (measure length)"
    by simp
next
  fix n_url :: string and p
  assume "find_str n_url ''%2F'' = Some p"
  then have "p + 3 \<le> length n_url"
    using find_str_bound [of n_url "''%2F''" p] by simp
  then show "(take p n_url @ ''/'' @ drop (p + 3) n_url, n_url) \<in> measure length"
    by simp
qed

declare replace_5C.simps [simp del]
declare replace_2F.simps [simp del]

text \<open>
  \<^verbatim>\<open>astrcmpi_n(a, b, n) == 0\<close> (of \<^verbatim>\<open>util/dstr.h\<close>): the first \<open>n\<close> characters of the two
  strings are equal up to the case of ASCII letters.
\<close>

definition toupper :: "char \<Rightarrow> char" where
  "toupper c =
     (if c \<in> set ''abcdefghijklmnopqrstuvwxyz'' then char_of (of_char c - (32 :: nat)) else c)"

definition astrcmpi_n_equal :: "string \<Rightarrow> string \<Rightarrow> nat \<Rightarrow> bool" where
  "astrcmpi_n_equal a b n = (map toupper (take n a) = map toupper (take n b))"

section \<open>Configuration update: \<^verbatim>\<open>BrowserSource::Update\<close>\<close>

text \<open>
  \<open>obs_data\<close> holds what the \<^verbatim>\<open>obs_data_get_\<close> accessors return for the keys \<^verbatim>\<open>Update\<close> reads
  (field \<open>d_k\<close> for key \<^verbatim>\<open>k\<close>); \<^verbatim>\<open>obs_data_get_int\<close> returns 64 bits, which \<^verbatim>\<open>(int)\<close> cuts to
  32. \<open>config\<close> holds the local variables \<^verbatim>\<open>n_is_local\<close> ... \<^verbatim>\<open>n_css\<close> as they stand at
  line 886, the normalized configuration. \<^verbatim>\<open>CefURIEncode(n_url, false)\<close> is a function of
  the engine library and a parameter here.
\<close>

record obs_data =
  d_is_local_file :: bool
  d_width :: "64 word"
  d_height :: "64 word"
  d_fps_custom :: bool
  d_fps :: "64 word"
  d_shutdown :: bool
  d_restart_when_active :: bool
  d_css :: string
  d_local_file :: string
  d_url :: string
  d_reroute_audio :: bool

record config =
  n_is_local :: bool
  n_width :: "32 word"
  n_height :: "32 word"
  n_fps_custom :: bool
  n_fps :: "32 word"
  n_shutdown :: bool
  n_restart :: bool
  n_reroute :: bool
  n_url :: string
  n_css :: string

text \<open>Lines 850 to 875: the URL of a local file.\<close>

definition local_file_url :: "build \<Rightarrow> (string \<Rightarrow> string) \<Rightarrow> string \<Rightarrow> error + string" where
  "local_file_url b CefURIEncode path =
     (let u0 = CefURIEncode path in
      case (if WIN32 b then replace_str u0 (find_str u0 ''%3A'') 3 '':'' else Inr u0) of
        Inl e \<Rightarrow> Inl e
      | Inr u1 \<Rightarrow>
          let u2 = replace_5C u1;
              u3 = replace_2F u2
          in Inr (if \<not> ENABLE_LOCAL_FILE_URL_SCHEME b then ''http://absolute/'' @ u3
                  else if WIN32 b then ''file:///'' @ u3
                  else ''file://'' @ u3))"

text \<open>Lines 838 to 884: from the settings to the normalized configuration.\<close>

definition normalized :: "build \<Rightarrow> (string \<Rightarrow> string) \<Rightarrow> obs_data \<Rightarrow> error + config" where
  "normalized b CefURIEncode settings =
     (let is_local0 = d_is_local_file settings;
          url0 = (if is_local0 then d_local_file settings else d_url settings)
      in case (if is_local0 then local_file_url b CefURIEncode url0 else Inr url0) of
           Inl e \<Rightarrow> Inl e
         | Inr url1 \<Rightarrow>
             let absolute = (ENABLE_LOCAL_FILE_URL_SCHEME b \<and>
                             astrcmpi_n_equal url1 ''http://absolute/'' 16)
             in Inr \<lparr>n_is_local = (if absolute then True else is_local0),
                     n_width = ucast (d_width settings),
                     n_height = ucast (d_height settings),
                     n_fps_custom = d_fps_custom settings,
                     n_fps = ucast (d_fps settings),
                     n_shutdown = d_shutdown settings,
                     n_restart = d_restart_when_active settings,
                     n_reroute = d_reroute_audio settings,
                     n_url = (if absolute then ''file:///'' @ drop 16 url1 else url1),
                     n_css = d_css settings\<rparr>)"

text \<open>Lines 886 to 890: the comparison with the current snapshot.\<close>

definition unchanged :: "config \<Rightarrow> BrowserSource \<Rightarrow> bool" where
  "unchanged n s \<longleftrightarrow>
     n_is_local n = is_local s \<and> n_width n = width s \<and> n_height n = height s \<and>
     n_fps_custom n = fps_custom s \<and> n_fps n = fps s \<and>
     n_shutdown n = shutdown_on_invisible s \<and> n_restart n = restart s \<and>
     n_css n = css s \<and> n_url n = url s \<and> n_reroute n = reroute_audio s"

text \<open>Lines 894 to 903: the snapshot is replaced.\<close>

definition assign :: "config \<Rightarrow> BrowserSource \<Rightarrow> BrowserSource" where
  "assign n s =
     s\<lparr>is_local := n_is_local n, width := n_width n, height := n_height n, fps := n_fps n,
       fps_custom := n_fps_custom n, shutdown_on_invisible := n_shutdown n,
       reroute_audio := n_reroute n, restart := n_restart n, css := n_css n,
       url := n_url n\<rparr>"

text \<open>
  Lines 908 to 914, the teardown that ends every call that does not return early:
  \<^verbatim>\<open>DestroyBrowser(true)\<close>, \<^verbatim>\<open>DestroyTextures()\<close>, \<^verbatim>\<open>ClearAudioStreams()\<close>, the pending-create
  flag and \<^verbatim>\<open>first_update\<close>.
\<close>

definition teardown ::
  "build \<Rightarrow> host \<Rightarrow> BrowserSource \<Rightarrow> BrowserFunc effect list \<times> BrowserSource" where
  "teardown b env s =
     (let (fx, s1) = DestroyBrowser b env s True;
          s2 = (if \<not> shutdown_on_invisible s1 \<or> source_showing env
                then s1\<lparr>create_browser := True\<rparr> else s1)
      in (fx @ [DestroyTextures, QueueCEFTask ClearAudioTask (queue_accepts env)],
          s2\<lparr>first_update := False\<rparr>))"

definition Update ::
  "build \<Rightarrow> (string \<Rightarrow> string) \<Rightarrow> host \<Rightarrow> BrowserSource \<Rightarrow> obs_data option \<Rightarrow>
   error + (BrowserFunc effect list \<times> BrowserSource)" where
  "Update b CefURIEncode env s settings =
     (case settings of
        None \<Rightarrow> Inr (teardown b env s)
      | Some d \<Rightarrow>
          (case normalized b CefURIEncode d of
             Inl e \<Rightarrow> Inl e
           | Inr n \<Rightarrow>
               if unchanged n s then Inr ([], s)
               else
                 let s' = assign n s;
                     (fx, s'') = teardown b env s'
                 in Inr (SetAudioActive (reroute_audio s') # fx, s'')))"

text \<open>Two calls in a row; an exception in the first ends the sequence.\<close>

definition Update_twice ::
  "build \<Rightarrow> (string \<Rightarrow> string) \<Rightarrow> host \<Rightarrow> host \<Rightarrow> BrowserSource \<Rightarrow>
   obs_data option \<Rightarrow> obs_data option \<Rightarrow> error + (BrowserFunc effect list \<times> BrowserSource)" where
  "Update_twice b CefURIEncode env1 env2 s d1 d2 =
     (case Update b CefURIEncode env1 s d1 of
        Inl e \<Rightarrow> Inl e
      | Inr (fx1, s1) \<Rightarrow>
          (case Update b CefURIEncode env2 s1 d2 of
             Inl e \<Rightarrow> Inl e
           | Inr (fx2, s2) \<Rightarrow> Inr (fx1 @ fx2, s2)))"

text \<open>
  A teardown runs \<^verbatim>\<open>DestroyTextures\<close> exactly once, so the number of teardowns in a list of
  effects is the number of its \<open>DestroyTextures\<close>.
\<close>

definition teardowns :: "'f effect list \<Rightarrow> nat" where
  "teardowns fx = length (filter (\<lambda>e. e = DestroyTextures) fx)"

text \<open>
  An instance of \<^verbatim>\<open>CefURIEncode(text, false)\<close> to evaluate with: every byte other than an
  ASCII letter, a digit or one of \<^verbatim>\<open>-_.!~*'()\<close> becomes \<^verbatim>\<open>%XX\<close> with upper-case hexadecimal
  digits.
\<close>

definition unescaped :: "char \<Rightarrow> bool" where
  "unescaped c \<longleftrightarrow>
     c \<in> set (''ABCDEFGHIJKLMNOPQRSTUVWXYZabcdefghijklmnopqrstuvwxyz0123456789-_.!~*()'' @
              [CHR 0x27])"

definition hex_digit :: "nat \<Rightarrow> char" where
  "hex_digit n = ''0123456789ABCDEF'' ! n"

definition uri_encode :: "string \<Rightarrow> string" where
  "uri_encode s =
     concat (map (\<lambda>c. if unescaped c then [c]
                       else [CHR ''%'', hex_digit (of_char c div 16), hex_digit (of_char c mod 16)])
               s)"

section \<open>The list of instances\<close>

text \<open>
  \<^verbatim>\<open>first_browser\<close> heads an intrusive list through the instances: each instance has a
  pointer \<^verbatim>\<open>next\<close> (\<open>next'\<close> here) and a pointer \<^verbatim>\<open>p_prev_next\<close> to the pointer that points at
  it, which is either \<^verbatim>\<open>first_browser\<close> or the \<^verbatim>\<open>next\<close> of another instance. The store
  \<open>objs\<close> maps the address of every instance that is constructed and not yet destroyed to
  its two list fields. Dereferencing an address outside the store is the result \<open>None\<close>.
  The functions of the instance above take no registry: they cannot change the list.
\<close>

type_synonym addr = nat

datatype slot = FirstBrowser | NextOf addr

record node =
  next' :: "addr option"
  p_prev_next :: slot

record registry =
  first_browser :: "addr option"
  objs :: "addr \<rightharpoonup> node"

text \<open>The constructor, lines 82 to 87; \<open>this\<close> is storage no live instance occupies.\<close>

definition BrowserSource_ctor :: "addr \<Rightarrow> registry \<Rightarrow> registry option" where
  "BrowserSource_ctor this r =
     (if objs r this \<noteq> None then None
      else
        let os = (objs r)(this \<mapsto> \<lparr>next' = first_browser r, p_prev_next = FirstBrowser\<rparr>)
        in case first_browser r of
             None \<Rightarrow> Some \<lparr>first_browser = Some this, objs = os\<rparr>
           | Some f \<Rightarrow>
               (case os f of
                  None \<Rightarrow> None
                | Some fnode \<Rightarrow>
                    Some \<lparr>first_browser = Some this,
                          objs = os(f \<mapsto> fnode\<lparr>p_prev_next := NextOf this\<rparr>)\<rparr>))"

text \<open>The destructor, lines 95 to 98, after which the storage of \<open>this\<close> is released.\<close>

definition BrowserSource_dtor :: "addr \<Rightarrow> registry \<Rightarrow> registry option" where
  "BrowserSource_dtor this r =
     (case objs r this of
        None \<Rightarrow> None
      | Some me \<Rightarrow>
          (case (case next' me of
                   None \<Rightarrow> Some (objs r)
                 | Some n \<Rightarrow>
                     (case objs r n of
                        None \<Rightarrow> None
                      | Some nnode \<Rightarrow>
                          Some ((objs r)(n \<mapsto> nnode\<lparr>p_prev_next := p_prev_next me\<rparr>)))) of
             None \<Rightarrow> None
           | Some os \<Rightarrow>
               (case p_prev_next me of
                  FirstBrowser \<Rightarrow>
                    Some \<lparr>first_browser = next' me, objs = os(this := None)\<rparr>
                | NextOf p \<Rightarrow>
                    (case os p of
                       None \<Rightarrow> None
                     | Some pnode \<Rightarrow>
                         Some \<lparr>first_browser = first_browser r,
                               objs = (os(p \<mapsto> pnode\<lparr>next' := next' me\<rparr>))(this := None)\<rparr>))))"

text \<open>
  The loop of \<^verbatim>\<open>ExecuteOnAllBrowsers\<close>, lines 964 to 969, with fuel: the result is the list of
  instances on which \<^verbatim>\<open>ExecuteOnBrowser(func, true)\<close> is called, in order, or \<open>None\<close> if the
  fuel runs out or a pointer dangles.
\<close>

fun walk :: "nat \<Rightarrow> (addr \<rightharpoonup> node) \<Rightarrow> addr option \<Rightarrow> addr list option" where
  "walk 0 os bs = None"
| "walk (Suc fuel) os None = Some []"
| "walk (Suc fuel) os (Some a) =
     (case os a of
        None \<Rightarrow> None
      | Some nd \<Rightarrow> map_option ((#) a) (walk fuel os (next' nd)))"

definition ExecuteOnAllBrowsers :: "nat \<Rightarrow> registry \<Rightarrow> addr list option" where
  "ExecuteOnAllBrowsers fuel r = walk fuel (objs r) (first_browser r)"

text \<open>
  A history of constructions and destructions, the instances alive after it, and what the
  language guarantees of it: an object is constructed in storage that is free and destroyed
  only while it is alive.
\<close>

datatype lifecycle = Construct addr | Destroy addr

fun run_lifecycle :: "registry \<Rightarrow> lifecycle list \<Rightarrow> registry option" where
  "run_lifecycle r [] = Some r"
| "run_lifecycle r (Construct a # ops) =
     (case BrowserSource_ctor a r of None \<Rightarrow> None | Some r' \<Rightarrow> run_lifecycle r' ops)"
| "run_lifecycle r (Destroy a # ops) =
     (case BrowserSource_dtor a r of None \<Rightarrow> None | Some r' \<Rightarrow> run_lifecycle r' ops)"

fun live_after :: "addr set \<Rightarrow> lifecycle list \<Rightarrow> addr set" where
  "live_after L [] = L"
| "live_after L (Construct a # ops) = live_after (insert a L) ops"
| "live_after L (Destroy a # ops) = live_after (L - {a}) ops"

fun well_formed :: "addr set \<Rightarrow> lifecycle list \<Rightarrow> bool" where
  "well_formed L [] = True"
| "well_formed L (Construct a # ops) = (a \<notin> L \<and> well_formed (insert a L) ops)"
| "well_formed L (Destroy a # ops) = (a \<in> L \<and> well_formed (L - {a}) ops)"

definition empty_registry :: registry where
  "empty_registry = \<lparr>first_browser = None, objs = Map.empty\<rparr>"

text \<open>
  \<open>chain os sl p xs\<close>: from the pointer \<open>p\<close>, which is stored in slot \<open>sl\<close>, the \<^verbatim>\<open>next\<close>
  pointers run through exactly the instances \<open>xs\<close> to null, and every \<^verbatim>\<open>p_prev_next\<close> points
  back at the slot before it. \<open>linked r xs\<close>: the list of \<open>r\<close> is such a chain from
  \<^verbatim>\<open>first_browser\<close>, without repetition, through all instances of the store.
\<close>

fun chain :: "(addr \<rightharpoonup> node) \<Rightarrow> slot \<Rightarrow> addr option \<Rightarrow> addr list \<Rightarrow> bool" where
  "chain os sl p [] = (p = None)"
| "chain os sl p (a # as) =
     (p = Some a \<and>
      (case os a of
         None \<Rightarrow> False
       | Some nd \<Rightarrow> p_prev_next nd = sl \<and> chain os (NextOf a) (next' nd) as))"

definition linked :: "registry \<Rightarrow> addr list \<Rightarrow> bool" where
  "linked r xs \<longleftrightarrow>
     chain (objs r) FirstBrowser (first_browser r) xs \<and> distinct xs \<and> set xs = dom (objs r)"

section \<open>Concrete values\<close>

text \<open>Builds, host states and instances at which the definitions are evaluated.\<close>

definition qt_build :: build where
  "qt_build = \<lparr>USE_QT_LOOP = True, LINUX = True, WIN32 = False,
               ENABLE_LOCAL_FILE_URL_SCHEME = True\<rparr>"

definition cef_loop_build :: build where
  "cef_loop_build = \<lparr>USE_QT_LOOP = False, LINUX = True, WIN32 = False,
                     ENABLE_LOCAL_FILE_URL_SCHEME = True\<rparr>"

definition engine_thread_host :: host where
  "engine_thread_host = \<lparr>on_engine_thread = True, queue_accepts = True,
                         source_showing = True\<rparr>"

text \<open>
  \<open>fresh_source\<close> is an instance before its first update, with no engine object and an
  empty snapshot; \<open>live_source\<close> holds the engine object 7.
\<close>

definition fresh_source :: BrowserSource where
  "fresh_source = \<lparr>is_local = False, width = 0, height = 0, fps_custom = False, fps = 0,
                   shutdown_on_invisible = False, restart = False, css = [], url = [],
                   reroute_audio = False, cefBrowser = None, create_browser = False,
                   first_update = True, is_showing = False\<rparr>"

definition live_source :: BrowserSource where
  "live_source = fresh_source\<lparr>cefBrowser := Some 7, first_update := False\<rparr>"






definition win_build :: build where
  "win_build = \<lparr>USE_QT_LOOP = False, LINUX = False, WIN32 = True,
                ENABLE_LOCAL_FILE_URL_SCHEME = True\<rparr>"

definition legacy_win_build :: build where
  "legacy_win_build = \<lparr>USE_QT_LOOP = False, LINUX = False, WIN32 = True,
                       ENABLE_LOCAL_FILE_URL_SCHEME = False\<rparr>"

definition blank_settings :: obs_data where
  "blank_settings = \<lparr>d_is_local_file = False, d_width = 0, d_height = 0, d_fps_custom = False,
                     d_fps = 0, d_shutdown = False, d_restart_when_active = False, d_css = [],
                     d_local_file = [], d_url = [], d_reroute_audio = False\<rparr>"

definition local_file_settings :: "string \<Rightarrow> obs_data" where
  "local_file_settings path = blank_settings\<lparr>d_is_local_file := True, d_local_file := path\<rparr>"

definition web_settings :: obs_data where
  "web_settings = blank_settings\<lparr>d_url := ''https://obsproject.com'', d_width := 800,
                                  d_height := 600\<rparr>"

text \<open>The path \<^verbatim>\<open>C:\clip.webm\<close>; the backslash is character \<open>0x5C\<close>.\<close>

definition clip_path :: string where
  "clip_path = ''C:'' @ [CHR 0x5C] @ ''clip.webm''"

text \<open>The number of teardowns in the result of a call; a call that throws has run none.\<close>

definition teardowns_of :: "error + ('f effect list \<times> BrowserSource) \<Rightarrow> nat" where
  "teardowns_of r = (case r of Inl e \<Rightarrow> 0 | Inr (fx, s) \<Rightarrow> teardowns fx)"

text \<open>A history: three instances constructed, the second one destroyed.\<close>

definition three_made_one_destroyed :: "lifecycle list" where
  "three_made_one_destroyed = [Construct 1, Construct 2, Construct 3, Destroy 2]"


section \<open>Properties of the keycode translator\<close>

lemma switch_on_unlabelled:
  "k \<notin> set (concat (map fst cs)) \<Longrightarrow> switch_on cs k = None"
  by (induction cs) auto

lemma switch_on_result:
  "switch_on cs k = Some v \<Longrightarrow>
   v \<in> set (concat (map (\<lambda>(labels, body). map body labels) cs))"
  by (induction cs) (auto split: if_splits)

lemma case_labels_distinct: "distinct case_labels"
proof -
  have "distinct (map unat case_labels)"
    unfolding case_labels_def switch_cases_def by simp
  then show ?thesis
    by (simp add: distinct_map)
qed

lemma switch_results_defined_unat:
  "set (map unat switch_results) \<subseteq> set (map unat defined_vkeys)"
  unfolding switch_results_def switch_cases_def defined_vkeys_def by simp

lemma switch_results_defined: "set switch_results \<subseteq> set defined_vkeys"
proof
  fix v
  assume "v \<in> set switch_results"
  then have "unat v \<in> set (map unat defined_vkeys)"
    using switch_results_defined_unat by auto
  then obtain x where x: "x \<in> set defined_vkeys" "unat v = unat x"
    by auto
  then have "v = x"
    by (simp add: word_unat_eq_iff)
  with x show "v \<in> set defined_vkeys"
    by simp
qed

lemma VKEY_UNKNOWN_defined: "VKEY_UNKNOWN \<in> set defined_vkeys"
  by (simp add: defined_vkeys_def)

lemma KeyboardCodeFromXKeysym_a: "KeyboardCodeFromXKeysym XK_a = VKEY_A"
  unfolding KeyboardCodeFromXKeysym_def switch_cases_def by simp

text \<open>
  Claim C3. The keycode translator is total and has no failing branch: for every 32-bit
  key symbol it returns one of the codes that \<^verbatim>\<open>windows-keycode.h\<close> defines, and for a symbol
  that is not a \<^verbatim>\<open>case\<close> label of the switch it returns \<^verbatim>\<open>VKEY_UNKNOWN\<close>, which is 0.
\<close>

theorem C3_keycode_total_unknown_for_unmapped:
  "KeyboardCodeFromXKeysym keysym \<in> set defined_vkeys \<and>
   (keysym \<notin> set case_labels \<longrightarrow> KeyboardCodeFromXKeysym keysym = VKEY_UNKNOWN)"
proof -
  have defined: "KeyboardCodeFromXKeysym keysym \<in> set defined_vkeys"
  proof (cases "switch_on switch_cases keysym")
    case None
    then show ?thesis
      using VKEY_UNKNOWN_defined by (simp add: KeyboardCodeFromXKeysym_def)
  next
    case (Some v)
    then have "v \<in> set switch_results"
      unfolding switch_results_def by (rule switch_on_result)
    with Some switch_results_defined show ?thesis
      by (auto simp: KeyboardCodeFromXKeysym_def)
  qed
  have unmapped: "KeyboardCodeFromXKeysym keysym = VKEY_UNKNOWN"
    if "keysym \<notin> set case_labels"
    using that switch_on_unlabelled [of keysym switch_cases]
    by (simp add: KeyboardCodeFromXKeysym_def case_labels_def)
  from defined unmapped show ?thesis
    by simp
qed

lemma unmapped_0x12345: "(0x12345 :: keysym) \<notin> set case_labels"
proof
  assume "(0x12345 :: keysym) \<in> set case_labels"
  then have "unat (0x12345 :: keysym) \<in> unat ` set case_labels"
    by (rule imageI)
  moreover have "unat (0x12345 :: keysym) \<notin> unat ` set case_labels"
    unfolding case_labels_def switch_cases_def by simp
  ultimately show False
    by blast
qed

theorem C3_keycode_total_unknown_for_unmapped_witness:
  "(0x12345 :: keysym) \<notin> set case_labels \<and> KeyboardCodeFromXKeysym 0x12345 = VKEY_UNKNOWN \<and>
   KeyboardCodeFromXKeysym XK_a = VKEY_A \<and> VKEY_A \<in> set defined_vkeys"
  using C3_keycode_total_unknown_for_unmapped [of "0x12345"] unmapped_0x12345
    C3_keycode_total_unknown_for_unmapped [of XK_a] KeyboardCodeFromXKeysym_a
  by simp

section \<open>Properties of the dispatcher\<close>

text \<open>
  Claim C2. An asynchronous submission (\<^verbatim>\<open>ExecuteOnBrowser(func, true)\<close>) against an instance
  whose engine handle is null does nothing at all: the closure is not invoked, nothing is
  enqueued, and the call has no failing branch. This holds for every closure, every build
  and every host state.
\<close>

theorem C2_async_null_handle_is_noop:
  "cefBrowser s = None \<Longrightarrow> ExecuteOnBrowser b env s fn True = []"
  by (simp add: ExecuteOnBrowser_def)

theorem C2_async_null_handle_is_noop_witness:
  "cefBrowser fresh_source = None \<and>
   ExecuteOnBrowser cef_loop_build engine_thread_host fresh_source (0::nat) True = []"
  using C2_async_null_handle_is_noop [of fresh_source cef_loop_build engine_thread_host "0::nat"]
  by (simp add: fresh_source_def)

text \<open>
  Claim C7, as amended. In a build with \<^verbatim>\<open>USE_QT_LOOP\<close>, a synchronous submission
  (\<^verbatim>\<open>ExecuteOnBrowser(func, false)\<close>) made from the engine-loop thread runs the closure at
  once if and only if the instance holds a non-null handle, and returns: it enqueues
  nothing and never waits.
\<close>

theorem C7_sync_on_engine_thread_runs_inline:
  assumes "USE_QT_LOOP b" and "on_engine_thread env"
  shows "ExecuteOnBrowser b env s fn False =
           (case cefBrowser s of Some h \<Rightarrow> [Invoke fn h] | None \<Rightarrow> []) \<and>
         \<not> list_ex is_wait (ExecuteOnBrowser b env s fn False) \<and>
         \<not> list_ex is_enqueue (ExecuteOnBrowser b env s fn False) \<and>
         (list_ex is_invoke (ExecuteOnBrowser b env s fn False) \<longleftrightarrow> cefBrowser s \<noteq> None)"
  using assms by (simp add: ExecuteOnBrowser_def split: option.split)

theorem C7_sync_on_engine_thread_runs_inline_witness:
  "USE_QT_LOOP qt_build \<and> on_engine_thread engine_thread_host \<and>
   ExecuteOnBrowser qt_build engine_thread_host live_source (0::nat) False = [Invoke 0 7] \<and>
   ExecuteOnBrowser qt_build engine_thread_host fresh_source (0::nat) False = []"
  using C7_sync_on_engine_thread_runs_inline [of qt_build engine_thread_host live_source "0::nat"]
    C7_sync_on_engine_thread_runs_inline [of qt_build engine_thread_host fresh_source "0::nat"]
  by (simp add: qt_build_def engine_thread_host_def live_source_def fresh_source_def)

text \<open>
  The claim as stated, for every build, fails: without \<^verbatim>\<open>USE_QT_LOOP\<close> the test for the
  engine-loop thread is not compiled, and the same call made from the engine-loop thread
  enqueues the task and waits for it.
\<close>

theorem C7_sync_without_qt_loop_enqueues_and_waits:
  "on_engine_thread engine_thread_host \<and>
   ExecuteOnBrowser cef_loop_build engine_thread_host live_source (0::nat) False =
     [QueueCEFTask (SyncTask 0) True, EventWait] \<and>
   list_ex is_wait (ExecuteOnBrowser cef_loop_build engine_thread_host live_source (0::nat) False) \<and>
   list_ex is_enqueue
     (ExecuteOnBrowser cef_loop_build engine_thread_host live_source (0::nat) False)"
  by (simp add: ExecuteOnBrowser_def cef_loop_build_def engine_thread_host_def)

section \<open>Properties of \<^verbatim>\<open>DestroyBrowser\<close>\<close>

lemma engine_calls_null_handle:
  "cefBrowser s = None \<Longrightarrow> engine_calls run None (ExecuteOnBrowser b env s f async) = []"
  by (simp add: ExecuteOnBrowser_def engine_calls_def)

text \<open>
  Claim C8. \<^verbatim>\<open>DestroyBrowser\<close> is idempotent. After any call the instance's handle is null.
  A call on an instance whose handle is null sends nothing to the engine, in particular no
  close; so the second of two calls in succession sends nothing and leaves the instance as
  the first call left it.
\<close>

theorem C8_DestroyBrowser_idempotent:
  "cefBrowser (snd (DestroyBrowser b env s async)) = None \<and>
   (cefBrowser s = None \<longrightarrow>
      engine_calls (run_BrowserFunc b to_wide) None (fst (DestroyBrowser b env s async)) = []) \<and>
   engine_calls (run_BrowserFunc b to_wide) None
     (fst (DestroyBrowser b env' (snd (DestroyBrowser b env s async)) async')) = [] \<and>
   snd (DestroyBrowser b env' (snd (DestroyBrowser b env s async)) async') =
     snd (DestroyBrowser b env s async)"
  by (simp add: DestroyBrowser_def engine_calls_null_handle)

theorem C8_DestroyBrowser_idempotent_witness:
  "cefBrowser fresh_source = None \<and>
   engine_calls (run_BrowserFunc cef_loop_build (\<lambda>t. []))
     None (fst (DestroyBrowser cef_loop_build engine_thread_host fresh_source False)) = [] \<and>
   engine_calls (run_BrowserFunc cef_loop_build (\<lambda>t. [])) (Some 7)
     (fst (DestroyBrowser cef_loop_build engine_thread_host live_source True)) =
     [ClearClientBackref 7, WasHidden 7 True, CloseBrowser 7 True] \<and>
   engine_calls (run_BrowserFunc cef_loop_build (\<lambda>t. [])) None
     (fst (DestroyBrowser cef_loop_build engine_thread_host
        (snd (DestroyBrowser cef_loop_build engine_thread_host live_source True)) True)) = []"
  using C8_DestroyBrowser_idempotent
    [of cef_loop_build engine_thread_host fresh_source False "\<lambda>t. []" engine_thread_host False]
    C8_DestroyBrowser_idempotent
    [of cef_loop_build engine_thread_host live_source True "\<lambda>t. []" engine_thread_host True]
  by (simp add: DestroyBrowser_def ExecuteOnBrowser_def engine_calls_def fresh_source_def
      live_source_def cef_loop_build_def engine_thread_host_def)

section \<open>Properties of \<^verbatim>\<open>SendKeyClick\<close>\<close>




section \<open>Properties of \<^verbatim>\<open>Update\<close>\<close>

lemma unchanged_assign: "unchanged n (assign n s)"
  by (simp add: unchanged_def assign_def)

lemma unchanged_teardown: "unchanged n s \<Longrightarrow> unchanged n (snd (teardown b env s))"
  by (simp add: unchanged_def teardown_def DestroyBrowser_def)

lemma teardowns_ExecuteOnBrowser: "teardowns (ExecuteOnBrowser b env s f async) = 0"
  by (simp add: teardowns_def ExecuteOnBrowser_def split: option.split)

lemma teardowns_teardown: "teardowns (fst (teardown b env s)) = 1"
  using teardowns_ExecuteOnBrowser [of b env s DestroyFn True]
  by (simp add: teardown_def DestroyBrowser_def teardowns_def)

lemma Update_unchanged:
  "normalized b enc d = Inr n \<Longrightarrow> unchanged n s \<Longrightarrow> Update b enc env s (Some d) = Inr ([], s)"
  by (simp add: Update_def)

lemma Update_changed:
  "normalized b enc d = Inr n \<Longrightarrow> \<not> unchanged n s \<Longrightarrow>
   Update b enc env s (Some d) =
     Inr (SetAudioActive (n_reroute n) # fst (teardown b env (assign n s)),
          snd (teardown b env (assign n s)))"
  by (simp add: Update_def Let_def assign_def split: prod.split)

text \<open>
  Claim C1, as amended. If two consecutive \<^verbatim>\<open>Update\<close> calls carry settings with the same
  normalized configuration, the second call is a no-op: it has no effect and returns the
  instance as the first call left it (snapshot, engine handle and pending-create flag
  included). So the pair runs as many teardowns as the first call alone: one if the
  configuration differed from the snapshot the first call met, none if it did not; never two.
\<close>

theorem C1_second_identical_Update_is_noop:
  assumes "normalized b enc d1 = Inr n" and "normalized b enc d2 = Inr n"
  shows "\<exists>fx1 s1. Update b enc env1 s (Some d1) = Inr (fx1, s1) \<and>
                   Update b enc env2 s1 (Some d2) = Inr ([], s1) \<and>
                   Update_twice b enc env1 env2 s (Some d1) (Some d2) = Inr (fx1, s1) \<and>
                   teardowns fx1 = (if unchanged n s then 0 else 1)"
proof (cases "unchanged n s")
  case True
  then have "Update b enc env1 s (Some d1) = Inr ([], s)"
    and "Update b enc env2 s (Some d2) = Inr ([], s)"
    using assms by (simp_all add: Update_unchanged)
  with True show ?thesis
    by (simp add: Update_twice_def teardowns_def)
next
  case False
  define fx1 where "fx1 = SetAudioActive (n_reroute n) # fst (teardown b env1 (assign n s))"
  define s1 where "s1 = snd (teardown b env1 (assign n s))"
  have first: "Update b enc env1 s (Some d1) = Inr (fx1, s1)"
    using assms(1) False by (simp add: Update_changed fx1_def s1_def)
  have "unchanged n s1"
    unfolding s1_def by (rule unchanged_teardown) (rule unchanged_assign)
  then have second: "Update b enc env2 s1 (Some d2) = Inr ([], s1)"
    using assms(2) by (simp add: Update_unchanged)
  have "teardowns fx1 = 1"
    using teardowns_teardown [of b env1 "assign n s"] by (simp add: fx1_def teardowns_def)
  with first second False show ?thesis
    by (simp add: Update_twice_def)
qed

lemma normalized_web_settings:
  "normalized cef_loop_build uri_encode web_settings =
     Inr \<lparr>n_is_local = False, n_width = 800, n_height = 600, n_fps_custom = False, n_fps = 0,
          n_shutdown = False, n_restart = False, n_reroute = False,
          n_url = ''https://obsproject.com'', n_css = []\<rparr>"
  by (simp add: normalized_def web_settings_def blank_settings_def cef_loop_build_def
      astrcmpi_n_equal_def toupper_def)

theorem C1_second_identical_Update_is_noop_witness:
  "teardowns_of (Update_twice cef_loop_build uri_encode engine_thread_host engine_thread_host
      live_source (Some web_settings) (Some web_settings)) = 1 \<and>
   teardowns_of (Update cef_loop_build uri_encode engine_thread_host live_source
      (Some web_settings)) = 1"
proof -
  let ?n = "\<lparr>n_is_local = False, n_width = 800, n_height = 600, n_fps_custom = False,
             n_fps = 0, n_shutdown = False, n_restart = False, n_reroute = False,
             n_url = ''https://obsproject.com'', n_css = []\<rparr>"
  have "\<not> unchanged ?n live_source"
    by (simp add: unchanged_def live_source_def fresh_source_def)
  with C1_second_identical_Update_is_noop
    [OF normalized_web_settings normalized_web_settings,
      of engine_thread_host live_source engine_thread_host]
  show ?thesis
    by (auto simp: teardowns_of_def)
qed

text \<open>
  The claim as stated, for every instance state, fails: where the snapshot already equals
  the normalized configuration, the first call is a no-op too and the pair runs no teardown
  at all, not exactly one.
\<close>

theorem C1_pair_matching_snapshot_runs_no_teardown:
  "Update_twice cef_loop_build uri_encode engine_thread_host engine_thread_host fresh_source
     (Some blank_settings) (Some blank_settings) = Inr ([], fresh_source) \<and>
   teardowns_of (Update_twice cef_loop_build uri_encode engine_thread_host engine_thread_host
     fresh_source (Some blank_settings) (Some blank_settings)) = 0"
  by (simp add: Update_twice_def Update_def normalized_def unchanged_def blank_settings_def
      fresh_source_def cef_loop_build_def astrcmpi_n_equal_def teardowns_of_def teardowns_def)

text \<open>
  Claim C5, as amended. \<^verbatim>\<open>Update\<close> with absent settings, on its first invocation as on any
  other, does not replace the configuration snapshot, and while no engine handle is held it
  sends nothing to the engine. But it does not defer: it runs the teardown, that is
  \<^verbatim>\<open>DestroyBrowser(true)\<close> (which leaves the handle null), \<^verbatim>\<open>DestroyTextures\<close> and
  \<^verbatim>\<open>ClearAudioStreams\<close>; it sets the pending-create flag unless the instance shuts down
  while hidden and is hidden; and it clears \<^verbatim>\<open>first_update\<close>.
\<close>

theorem C5_Update_without_settings_tears_down:
  "Update b enc env s None =
     Inr (ExecuteOnBrowser b env s DestroyFn True @
            [DestroyTextures, QueueCEFTask ClearAudioTask (queue_accepts env)],
          s\<lparr>cefBrowser := None,
            create_browser :=
              (if shutdown_on_invisible s \<and> \<not> source_showing env then create_browser s
               else True),
            first_update := False\<rparr>) \<and>
   (cefBrowser s = None \<longrightarrow>
      engine_calls (run_BrowserFunc b to_wide) None
        (ExecuteOnBrowser b env s DestroyFn True @
           [DestroyTextures, QueueCEFTask ClearAudioTask (queue_accepts env)]) = [])"
  by (simp add: Update_def teardown_def DestroyBrowser_def ExecuteOnBrowser_def engine_calls_def)

theorem C5_Update_without_settings_tears_down_witness:
  "Update cef_loop_build uri_encode engine_thread_host live_source None =
     Inr ([QueueCEFTask (AsyncTask DestroyFn 7) True, DestroyTextures,
           QueueCEFTask ClearAudioTask True],
          live_source\<lparr>cefBrowser := None, create_browser := True\<rparr>)"
  using C5_Update_without_settings_tears_down
    [of cef_loop_build uri_encode engine_thread_host live_source "\<lambda>t. []"]
  by (simp add: ExecuteOnBrowser_def live_source_def fresh_source_def cef_loop_build_def
      engine_thread_host_def)

text \<open>
  The claim as stated fails on the first invocation, on an instance with \<^verbatim>\<open>first_update\<close>
  set and no engine object: the state does not stay as it was, for creation is scheduled
  and \<^verbatim>\<open>first_update\<close> is cleared.
\<close>

theorem C5_first_Update_without_settings_schedules_creation:
  "first_update fresh_source \<and> \<not> create_browser fresh_source \<and>
   Update cef_loop_build uri_encode engine_thread_host fresh_source None =
     Inr ([DestroyTextures, QueueCEFTask ClearAudioTask True],
          fresh_source\<lparr>create_browser := True, first_update := False\<rparr>)"
  by (simp add: Update_def teardown_def DestroyBrowser_def ExecuteOnBrowser_def fresh_source_def
      engine_thread_host_def)

lemma uri_encode_clip_path: "uri_encode clip_path = ''C%3A%5Cclip.webm''"
  by (simp add: uri_encode_def clip_path_def unescaped_def hex_digit_def)

lemma uri_encode_relative: "uri_encode ''clip.webm'' = ''clip.webm''"
  by (simp add: uri_encode_def unescaped_def)

lemma local_file_url_total:
  "\<not> WIN32 b \<Longrightarrow> \<exists>u. local_file_url b enc path = Inr u"
  by (simp add: local_file_url_def Let_def)

lemma local_file_url_win32_no_colon:
  "WIN32 b \<Longrightarrow> find_str (enc path) ''%3A'' = None \<Longrightarrow> local_file_url b enc path = Inl OutOfRange"
  by (simp add: local_file_url_def Let_def replace_str_def)

text \<open>
  Claim C6 does not hold of the code on Windows. Line 854 replaces at
  \<^verbatim>\<open>n_url.find("%3A")\<close> without testing it against \<^verbatim>\<open>npos\<close>, as the two loops that follow do:
  for a local file whose encoded path has no colon, here the relative path \<^verbatim>\<open>clip.webm\<close>,
  \<^verbatim>\<open>replace\<close> throws \<^verbatim>\<open>std::out_of_range\<close> and \<^verbatim>\<open>Update\<close> does not complete.
\<close>

theorem C6_Update_win32_path_without_colon_throws:
  "Update win_build uri_encode engine_thread_host fresh_source
     (Some (local_file_settings ''clip.webm'')) = Inl OutOfRange"
  using local_file_url_win32_no_colon [of win_build uri_encode "''clip.webm''"]
  by (simp add: Update_def normalized_def local_file_settings_def blank_settings_def
      win_build_def uri_encode_relative)

lemma local_file_url_clip:
  assumes "WIN32 b" and "enc clip_path = ''C%3A%5Cclip.webm''"
  shows "local_file_url b enc clip_path =
           Inr ((if ENABLE_LOCAL_FILE_URL_SCHEME b then ''file:///'' else ''http://absolute/'') @
                ''C:/clip.webm'')"
proof -
  have "replace_str ''C%3A%5Cclip.webm'' (find_str ''C%3A%5Cclip.webm'' ''%3A'') 3 '':'' =
          Inr ''C:%5Cclip.webm''"
    by (simp add: replace_str_def)
  moreover have "replace_5C ''C:%5Cclip.webm'' = ''C:/clip.webm''"
    by (simp add: replace_5C.simps)
  moreover have "replace_2F ''C:/clip.webm'' = ''C:/clip.webm''"
    by (simp add: replace_2F.simps)
  ultimately show ?thesis
    using assms by (simp add: local_file_url_def)
qed

lemma file_url_not_absolute: "\<not> astrcmpi_n_equal ''file:///C:/clip.webm'' ''http://absolute/'' 16"
  by (simp add: astrcmpi_n_equal_def toupper_def)

text \<open>
  Claim C10, as amended. On a Windows target built with \<^verbatim>\<open>ENABLE_LOCAL_FILE_URL_SCHEME\<close>,
  \<^verbatim>\<open>Update\<close> with \<^verbatim>\<open>is_local_file\<close> set and the path \<^verbatim>\<open>C:\clip.webm\<close> (which \<^verbatim>\<open>CefURIEncode\<close>
  turns into \<^verbatim>\<open>C%3A%5Cclip.webm\<close>) normalizes the URL to \<^verbatim>\<open>file:///C:/clip.webm\<close>, and that
  is the URL of the snapshot when the call returns.
\<close>

theorem C10_windows_local_file_url:
  assumes "WIN32 b" and "ENABLE_LOCAL_FILE_URL_SCHEME b"
    and "enc clip_path = ''C%3A%5Cclip.webm''"
    and "d_is_local_file d" and "d_local_file d = clip_path"
  shows "\<exists>n fx s'. normalized b enc d = Inr n \<and> n_url n = ''file:///C:/clip.webm'' \<and>
                    n_is_local n \<and>
                    Update b enc env s (Some d) = Inr (fx, s') \<and>
                    url s' = ''file:///C:/clip.webm'' \<and> is_local s'"
proof -
  obtain n where n: "normalized b enc d = Inr n" "n_url n = ''file:///C:/clip.webm''"
    "n_is_local n"
    using assms local_file_url_clip [of b enc] file_url_not_absolute
    by (simp add: normalized_def)
  show ?thesis
  proof (cases "unchanged n s")
    case True
    with n have "Update b enc env s (Some d) = Inr ([], s)" "url s = ''file:///C:/clip.webm''"
      "is_local s"
      by (simp_all add: Update_unchanged unchanged_def)
    with n show ?thesis
      by blast
  next
    case False
    have "unchanged n (snd (teardown b env (assign n s)))"
      by (rule unchanged_teardown) (rule unchanged_assign)
    with n have "url (snd (teardown b env (assign n s))) = ''file:///C:/clip.webm''"
      "is_local (snd (teardown b env (assign n s)))"
      by (simp_all add: unchanged_def)
    with n False Update_changed [of b enc d n s env] show ?thesis
      by blast
  qed
qed

theorem C10_windows_local_file_url_witness:
  "WIN32 win_build \<and> ENABLE_LOCAL_FILE_URL_SCHEME win_build \<and>
   uri_encode clip_path = ''C%3A%5Cclip.webm'' \<and>
   normalized win_build uri_encode (local_file_settings clip_path) =
     Inr \<lparr>n_is_local = True, n_width = 0, n_height = 0, n_fps_custom = False, n_fps = 0,
          n_shutdown = False, n_restart = False, n_reroute = False,
          n_url = ''file:///C:/clip.webm'', n_css = []\<rparr>"
proof -
  have "\<exists>n. normalized win_build uri_encode (local_file_settings clip_path) = Inr n \<and>
             n_url n = ''file:///C:/clip.webm'' \<and> n_is_local n"
    using C10_windows_local_file_url
      [of win_build uri_encode "local_file_settings clip_path" engine_thread_host fresh_source]
    by (auto simp: win_build_def uri_encode_clip_path local_file_settings_def)
  then obtain n where n: "normalized win_build uri_encode (local_file_settings clip_path) = Inr n"
    "n_url n = ''file:///C:/clip.webm''" "n_is_local n"
    by blast
  then have "n = \<lparr>n_is_local = True, n_width = 0, n_height = 0, n_fps_custom = False, n_fps = 0,
                   n_shutdown = False, n_restart = False, n_reroute = False,
                   n_url = ''file:///C:/clip.webm'', n_css = []\<rparr>"
    by (auto simp: normalized_def local_file_settings_def blank_settings_def Let_def
        split: sum.splits if_splits)
  with n show ?thesis
    by (simp add: win_build_def uri_encode_clip_path)
qed

text \<open>
  The claim as stated, for every Windows target, fails: built without
  \<^verbatim>\<open>ENABLE_LOCAL_FILE_URL_SCHEME\<close>, the same call yields an \<^verbatim>\<open>http://absolute/\<close> URL.
\<close>

theorem C10_windows_without_file_scheme_yields_absolute:
  "WIN32 legacy_win_build \<and>
   normalized legacy_win_build uri_encode (local_file_settings clip_path) =
     Inr \<lparr>n_is_local = True, n_width = 0, n_height = 0, n_fps_custom = False, n_fps = 0,
          n_shutdown = False, n_restart = False, n_reroute = False,
          n_url = ''http://absolute/C:/clip.webm'', n_css = []\<rparr>"
  using local_file_url_clip [of legacy_win_build uri_encode]
  by (simp add: normalized_def local_file_settings_def blank_settings_def legacy_win_build_def
      uri_encode_clip_path)

section \<open>Properties of the list of instances\<close>

lemma chain_frame:
  "chain os sl p xs \<Longrightarrow> (\<And>x. x \<in> set xs \<Longrightarrow> os' x = os x) \<Longrightarrow> chain os' sl p xs"
  by (induction xs arbitrary: sl p) (auto split: option.splits)

lemma walk_chain:
  "chain os sl p xs \<Longrightarrow> length xs < fuel \<Longrightarrow> walk fuel os p = Some xs"
proof (induction xs arbitrary: sl p fuel)
  case Nil
  then show ?case by (cases fuel) auto
next
  case (Cons a as)
  then obtain k where "fuel = Suc k" by (cases fuel) auto
  with Cons show ?case
    by (auto split: option.splits)
qed

lemma ctor_linked:
  assumes "linked r xs" and "a \<notin> set xs"
  shows "\<exists>r'. BrowserSource_ctor a r = Some r' \<and> linked r' (a # xs)"
proof -
  from assms have fresh: "objs r a = None"
    by (auto simp: linked_def)
  from assms have dx: "distinct (a # xs)"
    by (simp add: linked_def)
  from assms have dom: "dom (objs r) = set xs"
    by (simp add: linked_def)
  show ?thesis
  proof (cases xs)
    case Nil
    with assms have "first_browser r = None"
      by (simp add: linked_def)
    then have "BrowserSource_ctor a r =
        Some \<lparr>first_browser = Some a,
              objs = (objs r)(a \<mapsto> \<lparr>next' = None, p_prev_next = FirstBrowser\<rparr>)\<rparr>"
      using fresh by (simp add: BrowserSource_ctor_def)
    moreover have "linked \<lparr>first_browser = Some a,
              objs = (objs r)(a \<mapsto> \<lparr>next' = None, p_prev_next = FirstBrowser\<rparr>)\<rparr> (a # xs)"
      using Nil dom by (simp add: linked_def)
    ultimately show ?thesis
      by blast
  next
    case (Cons f fs)
    with assms obtain fnode where f: "first_browser r = Some f" "objs r f = Some fnode"
      "p_prev_next fnode = FirstBrowser" "chain (objs r) (NextOf f) (next' fnode) fs"
      by (auto simp: linked_def split: option.splits)
    from dx Cons have af: "a \<noteq> f" "a \<notin> set fs" "f \<notin> set fs"
      by auto
    define os where "os = ((objs r)(a \<mapsto> \<lparr>next' = Some f, p_prev_next = FirstBrowser\<rparr>))
                 (f \<mapsto> fnode\<lparr>p_prev_next := NextOf a\<rparr>)"
    have same: "os x = objs r x" if "x \<in> set fs" for x
      using that af by (auto simp: os_def)
    have "chain os (NextOf f) (next' fnode) fs"
      using f(4) same by (rule chain_frame)
    then have ch: "chain os FirstBrowser (Some a) (a # f # fs)"
      using af by (simp add: os_def)
    have con: "BrowserSource_ctor a r = Some \<lparr>first_browser = Some a, objs = os\<rparr>"
      using fresh f af by (simp add: BrowserSource_ctor_def os_def)
    have "dom os = insert a (insert f (dom (objs r)))"
      by (auto simp: os_def)
    then have "dom os = set (a # xs)"
      using dom Cons by auto
    with ch dx Cons have "linked \<lparr>first_browser = Some a, objs = os\<rparr> (a # xs)"
      by (simp add: linked_def)
    with con show ?thesis
      by blast
  qed
qed



lemma chain_unlink_here:
  assumes "chain os sl (Some a) (a # zs)" and "os a = Some me"
    and succ: "\<And>n zs'. zs = n # zs' \<Longrightarrow>
                 os3 n = map_option (\<lambda>nd. nd\<lparr>p_prev_next := p_prev_next me\<rparr>) (os n)"
    and frame: "\<And>x. x \<in> set (tl zs) \<Longrightarrow> os3 x = os x"
  shows "chain os3 sl (next' me) zs"
proof (cases zs)
  case Nil
  with assms(1,2) show ?thesis
    by simp
next
  case (Cons n zs')
  from assms(1,2) have a: "p_prev_next me = sl" "chain os (NextOf a) (next' me) (n # zs')"
    unfolding Cons by simp_all
  then obtain nnode where n: "next' me = Some n"
    "os n = Some nnode" "p_prev_next nnode = NextOf a" "chain os (NextOf n) (next' nnode) zs'"
    by (cases "os n") auto
  have "os3 x = os x" if "x \<in> set zs'" for x
    using frame [of x] that Cons by simp
  with n(4) have "chain os3 (NextOf n) (next' nnode) zs'"
    by (rule chain_frame)
  moreover have "os3 n = Some (nnode\<lparr>p_prev_next := sl\<rparr>)"
    using succ [OF Cons] n(2) a(1) by simp
  ultimately show ?thesis
    unfolding Cons using n(1) by simp
qed


lemma chain_unlink:
  assumes "chain os sl p (ys @ a # zs)" and "distinct (ys @ a # zs)" and "os a = Some me"
    and frame_y: "\<And>x. x \<in> set ys \<Longrightarrow> x \<noteq> last ys \<Longrightarrow> os3 x = os x"
    and pred: "ys \<noteq> [] \<Longrightarrow>
                 os3 (last ys) = map_option (\<lambda>nd. nd\<lparr>next' := next' me\<rparr>) (os (last ys))"
    and succ: "\<And>n zs'. zs = n # zs' \<Longrightarrow>
                 os3 n = map_option (\<lambda>nd. nd\<lparr>p_prev_next := p_prev_next me\<rparr>) (os n)"
    and frame_z: "\<And>x. x \<in> set (tl zs) \<Longrightarrow> os3 x = os x"
  shows "chain os3 sl (if ys = [] then next' me else p) (ys @ zs)"
  using assms(1,2) frame_y pred
proof (induction ys arbitrary: sl p)
  case Nil
  from Nil.prems(1) have "chain os sl (Some a) (a # zs)"
    by simp
  then have "chain os3 sl (next' me) zs"
    using assms(3) succ frame_z by (rule chain_unlink_here)
  then show ?case
    by simp
next
  case (Cons y ys')
  from Cons.prems(1) have py: "p = Some y"
    by simp
  from Cons.prems(1) obtain ynode where y: "os y = Some ynode"
    "p_prev_next ynode = sl" "chain os (NextOf y) (next' ynode) (ys' @ a # zs)"
    by (cases "os y") auto
  show ?case
  proof (cases "ys' = []")
    case True
    from y(3) have here: "chain os (NextOf y) (Some a) (a # zs)" and nx: "next' ynode = Some a"
      unfolding True by simp_all
    have "chain os3 (NextOf y) (next' me) zs"
      using here assms(3) succ frame_z by (rule chain_unlink_here)
    moreover have "os3 y = Some (ynode\<lparr>next' := next' me\<rparr>)"
      using Cons.prems(4) y(1) unfolding True by simp
    ultimately show ?thesis
      unfolding True using py y(2) by simp
  next
    case False
    from Cons.prems(2) have "y \<notin> set ys'"
      by simp
    with False have "y \<noteq> last ys'"
      using last_in_set by metis
    with False have "y \<noteq> last (y # ys')"
      by simp
    then have os3y: "os3 y = Some ynode"
      using Cons.prems(3) [of y] y(1) by simp
    have "chain os3 (NextOf y) (if ys' = [] then next' me else next' ynode) (ys' @ zs)"
    proof (rule Cons.IH [OF y(3)])
      show "distinct (ys' @ a # zs)"
        using Cons.prems(2) by simp
      show "os3 x = os x" if "x \<in> set ys'" "x \<noteq> last ys'" for x
        using that Cons.prems(3) [of x] False by simp
      show "os3 (last ys') = map_option (\<lambda>nd. nd\<lparr>next' := next' me\<rparr>) (os (last ys'))"
        if "ys' \<noteq> []"
        using that Cons.prems(4) by simp
    qed
    then have "chain os3 (NextOf y) (next' ynode) (ys' @ zs)"
      using False by simp
    then show ?thesis
      using py os3y y(2) by simp
  qed
qed

lemma chain_at:
  "chain os sl p (ys @ a # zs) \<Longrightarrow>
   \<exists>me. os a = Some me \<and> p_prev_next me = (if ys = [] then sl else NextOf (last ys)) \<and>
        next' me = (case zs of [] \<Rightarrow> None | n # zs' \<Rightarrow> Some n) \<and>
        p = Some (hd (ys @ [a]))"
proof (induction ys arbitrary: sl p)
  case Nil
  from Nil obtain me where me: "os a = Some me" "p_prev_next me = sl" "p = Some a"
    "chain os (NextOf a) (next' me) zs"
    by (cases "os a") auto
  from me(4) have "next' me = (case zs of [] \<Rightarrow> None | n # zs' \<Rightarrow> Some n)"
    by (cases zs) simp_all
  with me show ?case
    by simp
next
  case (Cons y ys')
  from Cons.prems obtain ynode where y: "p = Some y" "os y = Some ynode"
    "chain os (NextOf y) (next' ynode) (ys' @ a # zs)"
    by (cases "os y") auto
  from Cons.IH [OF y(3)] obtain me where me: "os a = Some me"
    "p_prev_next me = (if ys' = [] then NextOf y else NextOf (last ys'))"
    "next' me = (case zs of [] \<Rightarrow> None | n # zs' \<Rightarrow> Some n)"
    by blast
  from me(2) have "p_prev_next me = NextOf (last (y # ys'))"
    by simp
  with me(1,3) y(1) show ?case
    by simp
qed

lemma chain_dom: "chain os sl p xs \<Longrightarrow> x \<in> set xs \<Longrightarrow> \<exists>nd. os x = Some nd"
proof (induction xs arbitrary: sl p)
  case Nil
  then show ?case
    by simp
next
  case (Cons y ys)
  from Cons.prems(1) obtain ynode where y: "os y = Some ynode"
    "chain os (NextOf y) (next' ynode) ys"
    by (cases "os y") auto
  show ?case
  proof (cases "x = y")
    case True
    with y(1) show ?thesis
      by simp
  next
    case False
    with Cons.prems(2) have "x \<in> set ys"
      by simp
    with y(2) show ?thesis
      by (rule Cons.IH)
  qed
qed


lemma dtor_linked:
  assumes "linked r xs" and "a \<in> set xs"
  shows "\<exists>r'. BrowserSource_dtor a r = Some r' \<and> linked r' (removeAll a xs)"
proof -
  from assms(2) obtain ys zs where xs: "xs = ys @ a # zs"
    by (auto dest: split_list)
  from assms(1) have ch: "chain (objs r) FirstBrowser (first_browser r) (ys @ a # zs)"
    and dx: "distinct (ys @ a # zs)" and dom: "dom (objs r) = set (ys @ a # zs)"
    by (simp_all add: linked_def xs)
  from dx have rem: "removeAll a xs = ys @ zs"
    by (simp add: xs)
  from dx have a_notin: "a \<notin> set ys" "a \<notin> set zs" and disj: "\<And>x. x \<in> set ys \<Longrightarrow> x \<notin> set zs"
    by auto
  from chain_at [OF ch] obtain me where me: "objs r a = Some me"
    "p_prev_next me = (if ys = [] then FirstBrowser else NextOf (last ys))"
    "next' me = (case zs of [] \<Rightarrow> None | n # zs' \<Rightarrow> Some n)"
    "first_browser r = Some (hd (ys @ [a]))"
    by blast
  have live: "\<exists>nd. objs r x = Some nd" if "x \<in> set (ys @ a # zs)" for x
    using ch that by (rule chain_dom)
  define os1 where "os1 = (case zs of [] \<Rightarrow> objs r
      | n # zs' \<Rightarrow> (objs r)(n \<mapsto> (the (objs r n))\<lparr>p_prev_next := p_prev_next me\<rparr>))"
  define os2 where "os2 = (if ys = [] then os1
      else os1(last ys \<mapsto> (the (os1 (last ys)))\<lparr>next' := next' me\<rparr>))"
  define os3 where "os3 = os2(a := None)"
  define fb where "fb = (if ys = [] then next' me else first_browser r)"
  have os1_other: "os1 x = objs r x" if "x \<notin> set zs" for x
    using that by (cases zs) (simp_all add: os1_def)
  have os1_tl: "os1 x = objs r x" if "x \<in> set (tl zs)" for x
  proof (cases zs)
    case Nil
    then show ?thesis
      by (simp add: os1_def)
  next
    case (Cons n zs')
    with dx that have "x \<noteq> n"
      by auto
    with Cons show ?thesis
      by (simp add: os1_def)
  qed
  have os1_hd: "os1 n = map_option (\<lambda>nd. nd\<lparr>p_prev_next := p_prev_next me\<rparr>) (objs r n)"
    if "zs = n # zs'" for n zs'
  proof -
    from live [of n] that obtain nnode where "objs r n = Some nnode"
      by auto
    with that show ?thesis
      by (simp add: os1_def)
  qed
  have last_ys: "last ys \<in> set ys" "last ys \<noteq> a" "last ys \<notin> set zs" if "ys \<noteq> []"
  proof -
    from that show "last ys \<in> set ys"
      by simp
    with a_notin show "last ys \<noteq> a"
      by auto
    from \<open>last ys \<in> set ys\<close> show "last ys \<notin> set zs"
      by (rule disj)
  qed
  have os1_last: "\<exists>pnode. os1 (last ys) = Some pnode \<and> objs r (last ys) = Some pnode"
    if "ys \<noteq> []"
  proof -
    from live [of "last ys"] last_ys(1) [OF that] obtain pnode
      where "objs r (last ys) = Some pnode"
      by auto
    with os1_other [OF last_ys(3) [OF that]] show ?thesis
      by simp
  qed
  have os1_a: "os1 a = Some me"
    using os1_other [OF a_notin(2)] me(1) by simp
  have os1_succ: "\<exists>nnode. objs r n = Some nnode" if "next' me = Some n" for n
  proof -
    from that me(3) have "n \<in> set zs"
      by (cases zs) auto
    then show ?thesis
      using live [of n] by simp
  qed
  have step1: "(case next' me of
                  None \<Rightarrow> Some (objs r)
                | Some n \<Rightarrow>
                    (case objs r n of
                       None \<Rightarrow> None
                     | Some nnode \<Rightarrow>
                         Some ((objs r)(n \<mapsto> nnode\<lparr>p_prev_next := p_prev_next me\<rparr>)))) = Some os1"
  proof (cases zs)
    case Nil
    with me(3) show ?thesis
      by (simp add: os1_def)
  next
    case (Cons n zs')
    from live [of n] Cons obtain nnode where "objs r n = Some nnode"
      by auto
    with Cons me(3) show ?thesis
      by (simp add: os1_def)
  qed
  have des: "BrowserSource_dtor a r = Some \<lparr>first_browser = fb, objs = os3\<rparr>"
  proof (cases "ys = []")
    case True
    with me(2) have "p_prev_next me = FirstBrowser"
      by simp
    with me(1) step1 True show ?thesis
      by (simp add: BrowserSource_dtor_def os2_def os3_def fb_def)
  next
    case False
    with me(2) have pp: "p_prev_next me = NextOf (last ys)"
      by simp
    from os1_last [OF False] obtain pnode where "os1 (last ys) = Some pnode"
      by blast
    with me(1) step1 False pp show ?thesis
      by (simp add: BrowserSource_dtor_def os2_def os3_def fb_def)
  qed
  have "chain os3 FirstBrowser (if ys = [] then next' me else first_browser r) (ys @ zs)"
    using ch dx me(1)
  proof (rule chain_unlink)
    show "os3 x = objs r x" if "x \<in> set ys" "x \<noteq> last ys" for x
    proof -
      from that(1) a_notin have "x \<noteq> a"
        by auto
      moreover from that(1) have "x \<notin> set zs"
        by (rule disj)
      ultimately show ?thesis
        using that(2) os1_other [of x] by (simp add: os3_def os2_def)
    qed
    show "os3 (last ys) = map_option (\<lambda>nd. nd\<lparr>next' := next' me\<rparr>) (objs r (last ys))"
      if "ys \<noteq> []"
    proof -
      from os1_last [OF that] obtain pnode where "os1 (last ys) = Some pnode"
        "objs r (last ys) = Some pnode"
        by blast
      with that last_ys(2) [OF that] show ?thesis
        by (simp add: os3_def os2_def)
    qed
    show "os3 n = map_option (\<lambda>nd. nd\<lparr>p_prev_next := p_prev_next me\<rparr>) (objs r n)"
      if "zs = n # zs'" for n zs'
    proof -
      from that have nz: "n \<in> set zs"
        by simp
      with a_notin have "n \<noteq> a"
        by auto
      moreover have "ys \<noteq> [] \<Longrightarrow> n \<noteq> last ys"
        using last_ys(3) nz by auto
      ultimately show ?thesis
        using os1_hd [OF that] by (simp add: os3_def os2_def)
    qed
    show "os3 x = objs r x" if "x \<in> set (tl zs)" for x
    proof -
      from that have xz: "x \<in> set zs"
        by (cases zs) auto
      with a_notin have "x \<noteq> a"
        by auto
      moreover have "ys \<noteq> [] \<Longrightarrow> x \<noteq> last ys"
        using last_ys(3) xz by auto
      ultimately show ?thesis
        using os1_tl [OF that] by (simp add: os3_def os2_def)
    qed
  qed
  then have ch3: "chain os3 FirstBrowser fb (ys @ zs)"
    by (simp add: fb_def)
  have d1: "dom os1 = dom (objs r)"
  proof (cases zs)
    case Nil
    then show ?thesis
      by (simp add: os1_def)
  next
    case (Cons n zs')
    with dom have "n \<in> dom (objs r)"
      by simp
    with Cons show ?thesis
      by (auto simp: os1_def)
  qed
  have d2: "dom os2 = dom os1"
  proof (cases "ys = []")
    case True
    then show ?thesis
      by (simp add: os2_def)
  next
    case False
    from os1_last [OF False] have "last ys \<in> dom os1"
      by auto
    with False show ?thesis
      by (auto simp: os2_def)
  qed
  have "dom os3 = dom (objs r) - {a}"
    using d1 d2 by (simp add: os3_def)
  with dom a_notin have "dom os3 = set (ys @ zs)"
    by auto
  with ch3 dx have "linked \<lparr>first_browser = fb, objs = os3\<rparr> (ys @ zs)"
    by (simp add: linked_def)
  with des rem show ?thesis
    by simp
qed


lemma empty_registry_linked: "linked empty_registry []"
  by (simp add: linked_def empty_registry_def)

lemma run_lifecycle_linked:
  "linked r xs \<Longrightarrow> well_formed (set xs) ops \<Longrightarrow>
   \<exists>r' xs'. run_lifecycle r ops = Some r' \<and> linked r' xs' \<and>
            set xs' = live_after (set xs) ops"
proof (induction ops arbitrary: r xs)
  case Nil
  then show ?case
    by auto
next
  case (Cons op ops)
  show ?case
  proof (cases op)
    case (Construct a)
    with Cons.prems have "a \<notin> set xs" and wf: "well_formed (set (a # xs)) ops"
      by simp_all
    with Cons.prems(1) obtain r1 where r1: "BrowserSource_ctor a r = Some r1" "linked r1 (a # xs)"
      using ctor_linked by blast
    from Cons.IH [OF r1(2) wf] r1(1) Construct show ?thesis
      by simp
  next
    case (Destroy a)
    with Cons.prems have "a \<in> set xs" and "well_formed (set xs - {a}) ops"
      by simp_all
    then have wf: "well_formed (set (removeAll a xs)) ops"
      by simp
    from Cons.prems(1) \<open>a \<in> set xs\<close> obtain r1
      where r1: "BrowserSource_dtor a r = Some r1" "linked r1 (removeAll a xs)"
      using dtor_linked by blast
    from Cons.IH [OF r1(2) wf] r1(1) Destroy show ?thesis
      by simp
  qed
qed

text \<open>
  Claim C9. After every history of constructions and destructions, started from the empty
  list, the constructor and destructor calls have all succeeded, and the list from
  \<^verbatim>\<open>first_browser\<close> holds exactly the instances constructed and not yet destroyed, each once:
  the traversal of \<^verbatim>\<open>ExecuteOnAllBrowsers\<close> terminates (with fuel beyond the number of live
  instances) and visits exactly these instances, none twice.
\<close>

theorem C9_registry_holds_live_instances_once:
  assumes "well_formed {} ops"
  shows "\<exists>r xs. run_lifecycle empty_registry ops = Some r \<and>
                 dom (objs r) = live_after {} ops \<and>
                 distinct xs \<and> set xs = live_after {} ops \<and>
                 (\<forall>fuel. card (live_after {} ops) < fuel \<longrightarrow>
                    ExecuteOnAllBrowsers fuel r = Some xs)"
proof -
  have "\<exists>r xs. run_lifecycle empty_registry ops = Some r \<and> linked r xs \<and>
                 set xs = live_after {} ops"
    using run_lifecycle_linked [OF empty_registry_linked, of ops] assms by simp
  then obtain r xs where r: "run_lifecycle empty_registry ops = Some r" "linked r xs"
    "set xs = live_after {} ops"
    by blast
  from r(2) have ch: "chain (objs r) FirstBrowser (first_browser r) xs" and dx: "distinct xs"
    and dom: "set xs = dom (objs r)"
    by (simp_all add: linked_def)
  from dx r(3) have "card (live_after {} ops) = length xs"
    using distinct_card by metis
  then have "ExecuteOnAllBrowsers fuel r = Some xs" if "card (live_after {} ops) < fuel" for fuel
    using that walk_chain [OF ch, of fuel] by (simp add: ExecuteOnAllBrowsers_def)
  with r(1,3) dx dom show ?thesis
    by auto
qed

theorem C9_registry_holds_live_instances_once_witness:
  "well_formed {} three_made_one_destroyed \<and>
   live_after {} three_made_one_destroyed = {1, 3} \<and>
   map_option (ExecuteOnAllBrowsers 3) (run_lifecycle empty_registry three_made_one_destroyed) =
     Some (Some [3, 1])"
  using C9_registry_holds_live_instances_once [of three_made_one_destroyed]
  by (auto simp: three_made_one_destroyed_def empty_registry_def BrowserSource_ctor_def
      BrowserSource_dtor_def ExecuteOnAllBrowsers_def numeral_3_eq_3)


end
